(* ===== verification/Py_Prelude.thy ===== *)
theory Py_Prelude
  imports Main "HOL-Library.Sublist"
begin

text \<open>
  Shared prelude of the development: the Python builtins that \<open>src/app.py\<close> calls on
  strings and dictionaries, as executable HOL functions, and the generic lemmas on them.
  A Python \<open>str\<close> is modelled as an Isabelle \<open>string\<close> (a list of \<open>char\<close>), that is,
  as a sequence of code points in the range U+0000..U+00FF; whitespace is Python's
  \<open>str.isspace\<close> restricted to that range.  A Python exception raised by these builtins
  is a value of \<open>py_exc\<close>; an operation that may raise returns \<open>py_exc + 'a\<close>.
  The collection \<open>py_simps\<close> gathers the characteristic equations of the builtins, for
  use by the component theories.
\<close>

named_theorems py_simps "characteristic equations of the modelled Python builtins"

subsection \<open>Exceptions\<close>

text \<open>
  The exceptions that can reach the \<^verbatim>\<open>except Exception\<close> handler of
  \<^verbatim>\<open>humanize_text\<close>: a missing dictionary key, an attribute of \<^verbatim>\<open>None\<close>, a failure of
  the \<^verbatim>\<open>ChatGroq\<close> constructor, and a failure of the remote call.  The last two carry
  the text that \<^verbatim>\<open>str(e)\<close> prints.
\<close>

datatype py_exc =
    KeyError string
  | AttributeError string
  | ClientError string
  | APIError string

definition py_quote :: "char" where
  "py_quote = CHR 0x27"

text \<open>\<^verbatim>\<open>str(e)\<close>: a \<^verbatim>\<open>KeyError\<close> prints the repr of its key, the others their message.\<close>

fun py_str_exc :: "py_exc \<Rightarrow> string" where
  "py_str_exc (KeyError k) = py_quote # k @ [py_quote]"
| "py_str_exc (AttributeError m) = m"
| "py_str_exc (ClientError m) = m"
| "py_str_exc (APIError m) = m"

subsection \<open>Whitespace, \<^verbatim>\<open>str.strip\<close> and \<^verbatim>\<open>str.split\<close>\<close>

definition py_whitespace :: "char list" where
  "py_whitespace = [CHR 0x09, CHR 0x0A, CHR 0x0B, CHR 0x0C, CHR 0x0D,
                    CHR 0x1C, CHR 0x1D, CHR 0x1E, CHR 0x1F, CHR 0x20, CHR 0x85, CHR 0xA0]"

definition py_isspace :: "char \<Rightarrow> bool" where
  "py_isspace c \<longleftrightarrow> c \<in> set py_whitespace"

text \<open>\<^verbatim>\<open>s.strip()\<close>: drop whitespace from both ends.\<close>

definition py_strip :: "string \<Rightarrow> string" where
  "py_strip s = rev (dropWhile py_isspace (rev (dropWhile py_isspace s)))"

text \<open>
  \<^verbatim>\<open>s.split()\<close> with no separator, as CPython's \<^verbatim>\<open>split_whitespace\<close> runs it: one
  pass that accumulates the current word and emits it at each whitespace run; runs of
  whitespace and whitespace at either end produce no empty words.  The word being built
  is kept reversed in \<open>cur\<close>.
\<close>

fun py_split_acc :: "string \<Rightarrow> string \<Rightarrow> string list" where
  "py_split_acc cur [] = (if cur = [] then [] else [rev cur])"
| "py_split_acc cur (c # cs) =
     (if py_isspace c
      then (if cur = [] then py_split_acc [] cs else rev cur # py_split_acc [] cs)
      else py_split_acc (c # cur) cs)"

definition py_split :: "string \<Rightarrow> string list" where
  "py_split s = py_split_acc [] s"

subsection \<open>\<^verbatim>\<open>str.replace\<close>\<close>

text \<open>
  \<^verbatim>\<open>s.replace(old, new)\<close>: left to right, non-overlapping; after a replacement the scan
  resumes behind the replaced occurrence.  An empty \<open>old\<close> inserts \<open>new\<close> before every
  character and at the end, as CPython does.
\<close>

function py_replace :: "string \<Rightarrow> string \<Rightarrow> string \<Rightarrow> string" where
  "py_replace old new [] = (if old = [] then new else [])"
| "py_replace old new (c # cs) =
     (if old = [] then new @ c # py_replace old new cs
      else if prefix old (c # cs) then new @ py_replace old new (drop (length old) (c # cs))
      else c # py_replace old new cs)"
  by pat_completeness auto
termination
  by (relation "measure (\<lambda>(old, new, s). length s)") auto

subsection \<open>Dictionaries\<close>

text \<open>
  A dictionary literal is an association list in the literal's order (its keys are
  distinct).  \<^verbatim>\<open>d.get(k, default)\<close> never raises; \<^verbatim>\<open>d[k]\<close> raises \<^verbatim>\<open>KeyError\<close>.
\<close>

definition dict_get :: "('k \<times> 'v) list \<Rightarrow> 'k \<Rightarrow> 'v \<Rightarrow> 'v" where
  "dict_get d k dflt = (case map_of d k of Some v \<Rightarrow> v | None \<Rightarrow> dflt)"

definition dict_getitem :: "(string \<times> 'v) list \<Rightarrow> string \<Rightarrow> py_exc + 'v" where
  "dict_getitem d k = (case map_of d k of Some v \<Rightarrow> Inr v | None \<Rightarrow> Inl (KeyError k))"

subsection \<open>Lemmas on \<^verbatim>\<open>str.strip\<close>\<close>

lemma all_dropWhile_iff:
  "(\<forall>x \<in> set (dropWhile P s). P x) \<longleftrightarrow> (\<forall>x \<in> set s. P x)"
  by (induction s) auto

lemma py_strip_Nil_iff [py_simps]:
  "py_strip s = [] \<longleftrightarrow> (\<forall>c \<in> set s. py_isspace c)"
  by (simp add: py_strip_def all_dropWhile_iff)

lemma py_strip_sublist [py_simps]: "sublist (py_strip s) s"
proof -
  let ?t = "dropWhile py_isspace s"
  have "suffix (dropWhile py_isspace (rev ?t)) (rev ?t)"
    by (rule suffix_dropWhile)
  then have "prefix (py_strip s) ?t"
    by (simp add: py_strip_def suffix_to_prefix)
  then have "sublist (py_strip s) ?t" by (rule prefix_imp_sublist)
  moreover have "sublist ?t s" using suffix_dropWhile by (rule suffix_imp_sublist)
  ultimately show ?thesis by (rule sublist_order.order_trans)
qed

text \<open>Stripping the right end of a word that starts with a non-space keeps its head.\<close>

lemma rstrip_keeps_head:
  "\<not> P x \<Longrightarrow> \<exists>ys. rev (dropWhile P (rev (x # xs))) = x # ys"
  by (auto simp: dropWhile_append intro: exI [of _ "rev (dropWhile P (rev xs))"])

lemma py_strip_no_leading:
  "py_strip s \<noteq> [] \<Longrightarrow> \<not> py_isspace (hd (py_strip s))"
proof -
  assume ne: "py_strip s \<noteq> []"
  then have "dropWhile py_isspace s \<noteq> []" by (simp add: py_strip_Nil_iff)
  then obtain x xs where t: "dropWhile py_isspace s = x # xs" and x: "\<not> py_isspace x"
    by (metis hd_dropWhile list.collapse)
  then obtain ys where "py_strip s = x # ys"
    using rstrip_keeps_head [of py_isspace x xs] by (auto simp: py_strip_def)
  with x show ?thesis by simp
qed

lemma py_strip_no_trailing:
  "py_strip s \<noteq> [] \<Longrightarrow> \<not> py_isspace (last (py_strip s))"
proof -
  assume ne: "py_strip s \<noteq> []"
  let ?u = "dropWhile py_isspace (rev (dropWhile py_isspace s))"
  have "?u \<noteq> []" using ne by (simp add: py_strip_def)
  moreover have "last (py_strip s) = hd ?u" using \<open>?u \<noteq> []\<close> by (simp add: py_strip_def last_rev)
  ultimately show ?thesis by (metis hd_dropWhile)
qed

lemma py_strip_idem [py_simps]: "py_strip (py_strip s) = py_strip s"
proof (cases "py_strip s = []")
  case True
  then show ?thesis by (simp add: py_strip_def [of "[]"])
next
  case False
  let ?t = "py_strip s"
  have h: "\<not> py_isspace (hd ?t)" and l: "\<not> py_isspace (last ?t)"
    using False py_strip_no_leading py_strip_no_trailing by auto
  have "dropWhile py_isspace ?t = ?t"
    using False h by (cases ?t) auto
  moreover have "dropWhile py_isspace (rev ?t) = rev ?t"
    using False l by (cases "rev ?t") (auto simp: last_rev [symmetric])
  ultimately show ?thesis by (simp only: py_strip_def [of ?t] rev_rev_ident)
qed

subsection \<open>Lemmas on \<^verbatim>\<open>str.split\<close>\<close>

lemma py_split_acc_Nil_iff:
  "py_split_acc cur s = [] \<longleftrightarrow> cur = [] \<and> (\<forall>c \<in> set s. py_isspace c)"
  by (induction cur s rule: py_split_acc.induct) auto

lemma py_split_Nil_iff [py_simps]:
  "py_split s = [] \<longleftrightarrow> (\<forall>c \<in> set s. py_isspace c)"
  by (simp add: py_split_def py_split_acc_Nil_iff)

subsection \<open>Lemmas on \<^verbatim>\<open>str.replace\<close>\<close>

lemma py_replace_prefix [py_simps]:
  "old \<noteq> [] \<Longrightarrow> py_replace old new (old @ s) = new @ py_replace old new s"
  by (cases old) simp_all

lemma py_replace_Cons_skip [py_simps]:
  "old \<noteq> [] \<Longrightarrow> \<not> prefix old (c # s) \<Longrightarrow> py_replace old new (c # s) = c # py_replace old new s"
  by simp

lemma py_replace_absent:
  "old \<noteq> [] \<Longrightarrow> \<not> sublist old s \<Longrightarrow> py_replace old new s = s"
  by (induction old new s rule: py_replace.induct)
     (auto simp: sublist_Cons_right prefix_imp_sublist)

lemma py_replace_single [py_simps]:
  "py_replace [a] new (c # s) = (if c = a then new else [c]) @ py_replace [a] new s"
  by simp

lemma py_replace_single_concat:
  "py_replace [a] new s = concat (map (\<lambda>c. if c = a then new else [c]) s)"
proof (induction s)
  case Nil
  then show ?case by simp
next
  case (Cons c s)
  then show ?case by (simp only: py_replace_single) simp
qed

lemma in_set_py_replace:
  "x \<in> set (py_replace old new s) \<Longrightarrow> x \<in> set s \<or> x \<in> set new"
proof (induction old new s rule: py_replace.induct)
  case (2 old new c cs)
  then show ?case
    using set_drop_subset [of "length old" "c # cs"] by (auto split: if_splits)
qed (auto split: if_splits)

lemma py_replace_single_removes:
  "a \<notin> set new \<Longrightarrow> a \<notin> set (py_replace [a] new s)"
  by (auto simp: py_replace_single_concat split: if_splits)

subsection \<open>Dictionaries\<close>

lemma dict_get_present [py_simps]: "map_of d k = Some v \<Longrightarrow> dict_get d k dflt = v"
  by (simp add: dict_get_def)

lemma dict_get_absent [py_simps]: "k \<notin> fst ` set d \<Longrightarrow> dict_get d k dflt = dflt"
proof -
  assume "k \<notin> fst ` set d"
  then have "map_of d k = None" by (simp add: map_of_eq_None_iff)
  then show ?thesis by (simp add: dict_get_def)
qed

lemma dict_getitem_present [py_simps]: "map_of d k = Some v \<Longrightarrow> dict_getitem d k = Inr v"
  by (simp add: dict_getitem_def)

subsection \<open>Prefixes and occurrences\<close>

text \<open>
  A pattern whose first character does not occur again in it (as \<^verbatim>\<open><think>\<close> and
  \<^verbatim>\<open></think>\<close>) has no proper border: an occurrence that starts inside a word \<open>w\<close>
  placed before a copy of the pattern lies inside \<open>w\<close>.
\<close>

lemma prefix_borderless:
  assumes hd_p: "p \<noteq> []" "hd p \<notin> set (tl p)"
    and pre: "prefix p (w @ p @ r)" and w: "w \<noteq> []"
  shows "sublist p w"
proof (cases "length p \<le> length w")
  case True
  with pre have "prefix p w" by (auto simp: prefix_append)
  then show ?thesis by (rule prefix_imp_sublist)
next
  case False
  from pre have "prefix p w \<or> (\<exists>us. p = w @ us \<and> prefix us (p @ r))"
    by (simp only: prefix_append)
  moreover have "\<not> prefix p w" using False prefix_length_le by fastforce
  ultimately obtain us where p: "p = w @ us" and us: "prefix us (p @ r)" by blast
  have "us \<noteq> []" using False p by auto
  from us obtain z where z: "p @ r = us @ z" by (auto simp: prefix_def)
  have "hd (p @ r) = hd p" using hd_p(1) by simp
  moreover have "hd (us @ z) = hd us" using \<open>us \<noteq> []\<close> by simp
  ultimately have "hd us = hd p" using z by simp
  moreover have "hd us \<in> set (tl p)"
  proof -
    have "tl p = tl w @ us" using p w by (simp add: tl_append2)
    then show ?thesis using \<open>us \<noteq> []\<close> by simp
  qed
  ultimately show ?thesis using hd_p(2) by simp
qed

lemma not_sublist_Cons: "\<not> sublist p (c # s) \<Longrightarrow> \<not> sublist p s"
  by (meson sublist_Cons_right)

lemma not_sublist_drop: "\<not> sublist p s \<Longrightarrow> \<not> sublist p (drop n s)"
  by (meson suffix_drop suffix_imp_sublist sublist_order.order_trans)

end
