(* ===== verification/Templates.thy ===== *)
theory Templates
  imports Py_Prelude
begin

text \<open>
  The style templates and the prompt builder of \<open>src/app.py\<close>
  (\<^verbatim>\<open>TextHumanizerRAG.create_humanization_prompt\<close>, lines 36--88).  The dictionary
  literal \<^verbatim>\<open>style_prompts\<close> is an association list in the literal's order, with its
  strings copied character for character.  The builder evaluates
  \<^verbatim>\<open>style_prompts["conversational"]\<close> (which could raise \<^verbatim>\<open>KeyError\<close>) before
  \<^verbatim>\<open>style_prompts.get(style, ...)\<close>, so it returns \<open>py_exc + string\<close>; the lemmas show
  that the error branch is dead, that an unknown style falls back to the conversational
  template, that the six styles give six different prompts, and that the user's text is
  kept verbatim and can be told apart.
\<close>

definition style_prompts :: "(string \<times> string) list" where
  "style_prompts =
    [
     (''conversational'',
      ''Transform the following text to sound more conversational and human-like:\<newline>- Use natural speech patterns\<newline>- Add appropriate contractions (don'' @ [CHR 0x27] @ ''t, won'' @ [CHR 0x27] @ ''t, can'' @ [CHR 0x27] @ ''t)\<newline>- Include casual transitions and connectors\<newline>- Make it sound like someone is actually talking\<newline>- Keep the core meaning intact''),
     (''professional'',
      ''Rewrite the following text to sound more professional yet human:\<newline>- Use polished but natural language\<newline>- Maintain professionalism while adding warmth\<newline>- Include appropriate business-friendly expressions\<newline>- Make it sound like an expert speaking naturally\<newline>- Keep the technical accuracy intact''),
     (''friendly'',
      ''Transform the following text to sound more friendly and approachable:\<newline>- Use warm, welcoming language\<newline>- Add encouraging phrases where appropriate\<newline>- Make it sound like a helpful friend explaining something\<newline>- Include empathetic expressions\<newline>- Keep the information accurate and helpful''),
     (''storytelling'',
      ''Rewrite the following text in a storytelling style:\<newline>- Use narrative elements where appropriate\<newline>- Add descriptive language and examples\<newline>- Make it engaging and relatable\<newline>- Include personal touches and anecdotes if suitable\<newline>- Maintain the factual content''),
     (''layman_terms'',
      ''Rewrite the following text in simple, layman-friendly language:\<newline>- Avoid technical terms and jargon\<newline>- Use everyday examples or analogies\<newline>- Break down complex ideas into plain language\<newline>- Use short, clear sentences\<newline>- Make it easy for someone with no background knowledge to understand''),
     (''indian_english'',
      ''Rewrite the following text in Indian English:\<newline>- Use sentence structures common in Indian usage\<newline>- Include polite and respectful expressions (e.g., '' @ [CHR 0x27] @ ''kindly'' @ [CHR 0x27] @ '', '' @ [CHR 0x27] @ ''please do the needful'' @ [CHR 0x27] @ '') where suitable\<newline>- Reflect a slightly formal but approachable tone\<newline>- Use Indian expressions or culturally familiar terms where appropriate\<newline>- Keep the original meaning intact while sounding locally natural'')
    ]"

text \<open>The prompt for a base template, as the f-string on lines 83--88 lays it out.\<close>

definition prompt_layout :: "string \<Rightarrow> string \<Rightarrow> string" where
  "prompt_layout base text =
     base @ ''\<newline>\<newline>Original text:\<newline>'' @ text @ ''\<newline>\<newline>Humanized version:''"

definition create_humanization_prompt :: "string \<Rightarrow> string \<Rightarrow> py_exc + string" where
  "create_humanization_prompt text style =
     (case dict_getitem style_prompts ''conversational'' of
        Inl e \<Rightarrow> Inl e
      | Inr dflt \<Rightarrow>
          (let base_prompt = dict_get style_prompts style dflt
           in Inr (prompt_layout base_prompt text)))"

text \<open>
  The contract of the template resolver in the specification (section 4.1): a known
  style key gives its block, any other string the block of \<^verbatim>\<open>"conversational"\<close>.
\<close>

definition style_keys :: "string list" where
  "style_keys = map fst style_prompts"

definition resolve_style :: "string \<Rightarrow> string" where
  "resolve_style style =
     (if style \<in> set style_keys then the (map_of style_prompts style)
      else the (map_of style_prompts ''conversational''))"

subsection \<open>Lemmas\<close>

lemma style_keys_eq:
  "style_keys = [''conversational'', ''professional'', ''friendly'', ''storytelling'',
                 ''layman_terms'', ''indian_english'']"
  by (simp add: style_keys_def style_prompts_def)

lemma map_of_style_prompts_conversational:
  "\<exists>v. map_of style_prompts ''conversational'' = Some v"
  by (simp add: style_prompts_def)

lemma create_humanization_prompt_eq:
  "create_humanization_prompt text style = Inr (prompt_layout (resolve_style style) text)"
proof -
  obtain v where v: "map_of style_prompts ''conversational'' = Some v"
    using map_of_style_prompts_conversational by blast
  have "dict_get style_prompts style v = resolve_style style"
  proof (cases "style \<in> set style_keys")
    case True
    then obtain w where "map_of style_prompts style = Some w"
      by (auto simp: style_keys_def dest: weak_map_of_SomeI)
    with True show ?thesis by (simp add: resolve_style_def dict_get_def)
  next
    case False
    then have "map_of style_prompts style = None"
      by (simp add: style_keys_def map_of_eq_None_iff)
    with False v show ?thesis by (simp add: resolve_style_def dict_get_def)
  qed
  with v show ?thesis
    by (simp add: create_humanization_prompt_def dict_getitem_def)
qed

lemma style_prompts_distinct: "distinct (map snd style_prompts)"
  by (simp add: style_prompts_def)

lemma resolve_style_known:
  "k \<in> set style_keys \<Longrightarrow> (k, resolve_style k) \<in> set style_prompts"
proof -
  assume "k \<in> set style_keys"
  then obtain v where "map_of style_prompts k = Some v"
    by (auto simp: style_keys_def dest: weak_map_of_SomeI)
  with \<open>k \<in> set style_keys\<close> show ?thesis
    by (simp add: resolve_style_def map_of_SomeD)
qed

lemma resolve_style_inj:
  assumes "k1 \<in> set style_keys" "k2 \<in> set style_keys" "k1 \<noteq> k2"
  shows "resolve_style k1 \<noteq> resolve_style k2"
proof
  assume eq: "resolve_style k1 = resolve_style k2"
  have "inj_on snd (set style_prompts)"
    using style_prompts_distinct by (simp add: distinct_map)
  moreover have "(k1, resolve_style k1) \<in> set style_prompts" "(k2, resolve_style k2) \<in> set style_prompts"
    using assms(1,2) by (simp_all add: resolve_style_known)
  ultimately have "(k1, resolve_style k1) = (k2, resolve_style k2)"
    using eq by (metis inj_onD snd_conv)
  with assms(3) show False by simp
qed

lemma prompt_layout_base_inj: "prompt_layout b1 t = prompt_layout b2 t \<Longrightarrow> b1 = b2"
  by (simp add: prompt_layout_def)

subsection \<open>Properties of the templates\<close>

text \<open>
  C12: the prompt builder never raises (the \<^verbatim>\<open>KeyError\<close> branch of
  \<^verbatim>\<open>style_prompts["conversational"]\<close> is dead), for every style string, and the prompt
  contains the user's text verbatim.
\<close>

theorem create_prompt_never_raises:
  "\<exists>p. create_humanization_prompt text style = Inr p \<and> sublist text p"
proof -
  have "sublist text (prompt_layout (resolve_style style) text)"
    unfolding prompt_layout_def
    using sublist_appendI [of "text" "resolve_style style @ ''\<newline>\<newline>Original text:\<newline>''"
        "''\<newline>\<newline>Humanized version:''"]
    by simp
  then show ?thesis by (simp add: create_humanization_prompt_eq)
qed

text \<open>
  C10: every style identifier that is not one of the six keys gives the same prompt as
  \<^verbatim>\<open>"conversational"\<close> (the specification's default-style invariant).
\<close>

theorem resolve_unknown_default:
  "style \<notin> set style_keys \<Longrightarrow>
   create_humanization_prompt text style = create_humanization_prompt text ''conversational''"
  by (simp add: create_humanization_prompt_eq resolve_style_def style_keys_eq)

theorem resolve_unknown_default_witness:
  "''pirate'' \<notin> set style_keys \<and>
   create_humanization_prompt ''hi'' ''pirate'' = create_humanization_prompt ''hi'' ''conversational''"
proof -
  have h: "''pirate'' \<notin> set style_keys" by (simp add: style_keys_eq)
  show ?thesis using h resolve_unknown_default [OF h, of "''hi''"] by simp
qed

text \<open>
  C11: the six recognised styles give six different prompts for the same text.
\<close>

theorem recognized_styles_distinct:
  "k1 \<in> set style_keys \<Longrightarrow> k2 \<in> set style_keys \<Longrightarrow> k1 \<noteq> k2 \<Longrightarrow>
   create_humanization_prompt text k1 \<noteq> create_humanization_prompt text k2"
  by (auto simp: create_humanization_prompt_eq dest: resolve_style_inj prompt_layout_base_inj)

theorem recognized_styles_distinct_witness:
  "''friendly'' \<in> set style_keys \<and> ''storytelling'' \<in> set style_keys \<and>
   ''friendly'' \<noteq> ''storytelling'' \<and>
   create_humanization_prompt ''hi'' ''friendly'' \<noteq> create_humanization_prompt ''hi'' ''storytelling''"
proof -
  have h: "''friendly'' \<in> set style_keys" "''storytelling'' \<in> set style_keys"
    "''friendly'' \<noteq> ''storytelling''"
    by (simp_all add: style_keys_eq)
  show ?thesis using h recognized_styles_distinct [OF h, of "''hi''"] by simp
qed

end
