(* ===== verification/Sanitizer.thy ===== *)
theory Sanitizer
  imports Py_Prelude
begin

text \<open>
  The response sanitizer of \<^verbatim>\<open>TextHumanizerRAG.humanize_text\<close> (\<open>src/app.py\<close>,
  line 117):
  \<^verbatim>\<open>re.sub(r"<think>.*?</think>", "", response.content, flags=re.DOTALL).strip()\<close>.
  The regular expression is modelled by the constructs it uses (literal text and a lazy
  star of \<^verbatim>\<open>.\<close>, with the DOTALL flag), matched by backtracking in continuation-passing
  style, the way Python's engine tries the alternatives: a lazy star first tries the
  rest of the pattern, and consumes one more character only when that fails.
  \<open>re_sub\<close> is the scan of \<^verbatim>\<open>re.sub\<close>: at each position the leftmost match found
  by the matcher is replaced and the scan resumes after it.
  \<open>strip_think\<close> is a direct scanner for the one pattern of the code; the lemmas
  show that the regex model computes exactly it, and characterise it: the leftmost
  \<^verbatim>\<open><think>\<close> that has a later \<^verbatim>\<open></think>\<close> is removed up to the first such
  closing tag, an unclosed tag is kept, and the output is a subsequence of the input.
\<close>

subsection \<open>Regular expressions and matching\<close>

datatype rx =
    RLit string          \<comment> \<open>literal text\<close>
  | RDotLazyStar bool    \<comment> \<open>\<^verbatim>\<open>.*?\<close>; the flag is DOTALL (\<^verbatim>\<open>.\<close> also matches a newline)\<close>
  | RSeq rx rx           \<comment> \<open>concatenation\<close>

text \<open>
  \<open>lazy_star dotall s k\<close>: the continuation \<open>k\<close> is tried on the text left after
  zero, one, two, \<dots> characters; the first success wins (shortest match first).
  Without DOTALL, \<^verbatim>\<open>.\<close> does not consume a newline.
\<close>

primrec lazy_star :: "bool \<Rightarrow> string \<Rightarrow> (string \<Rightarrow> string option) \<Rightarrow> string option" where
  "lazy_star dotall [] k = k []"
| "lazy_star dotall (c # cs) k =
     (case k (c # cs) of
        Some r \<Rightarrow> Some r
      | None \<Rightarrow> (if dotall \<or> c \<noteq> CHR 0x0A then lazy_star dotall cs k else None))"

text \<open>\<open>rmatch r s k\<close>: match \<open>r\<close> at the start of \<open>s\<close>, then run \<open>k\<close> on the rest.\<close>

primrec rmatch :: "rx \<Rightarrow> string \<Rightarrow> (string \<Rightarrow> string option) \<Rightarrow> string option" where
  "rmatch (RLit l) s k = (if prefix l s then k (drop (length l) s) else None)"
| "rmatch (RDotLazyStar dotall) s k = lazy_star dotall s k"
| "rmatch (RSeq a b) s k = rmatch a s (\<lambda>s'. rmatch b s' k)"

text \<open>
  \<^verbatim>\<open>re.sub(pattern, repl, s)\<close> with a literal replacement: at each position, the first
  match (\<open>rmatch r s Some\<close> returns the text after it) is replaced and the scan goes on
  behind it; where nothing matches, the character is kept.  An empty match inserts
  \<open>repl\<close> and the scan moves one character on, as Python 3.7 and later do.
\<close>

function re_sub :: "rx \<Rightarrow> string \<Rightarrow> string \<Rightarrow> string" where
  "re_sub r repl [] = (case rmatch r [] Some of Some _ \<Rightarrow> repl | None \<Rightarrow> [])"
| "re_sub r repl (c # cs) =
     (case rmatch r (c # cs) Some of
        None \<Rightarrow> c # re_sub r repl cs
      | Some rest \<Rightarrow>
          (if length rest < length (c # cs) then repl @ re_sub r repl rest
           else repl @ c # re_sub r repl cs))"
  by pat_completeness auto
termination
  by (relation "measure (\<lambda>(r, repl, s). length s)") auto

subsection \<open>The sanitizer of the code\<close>

definition open_tag :: string where
  "open_tag = ''<think>''"

definition close_tag :: string where
  "close_tag = ''</think>''"

text \<open>The compiled pattern \<^verbatim>\<open><think>.*?</think>\<close> with \<^verbatim>\<open>re.DOTALL\<close>.\<close>

definition think_pattern :: rx where
  "think_pattern = RSeq (RLit open_tag) (RSeq (RDotLazyStar True) (RLit close_tag))"

definition clean_response :: "string \<Rightarrow> string" where
  "clean_response content = py_strip (re_sub think_pattern [] content)"

subsection \<open>A direct scanner for the pattern\<close>

text \<open>\<open>find_close t\<close>: the text after the first \<^verbatim>\<open></think>\<close> in \<open>t\<close>, if any.\<close>

fun find_close :: "string \<Rightarrow> string option" where
  "find_close [] = None"
| "find_close (c # cs) =
     (if prefix close_tag (c # cs) then Some (drop (length close_tag) (c # cs))
      else find_close cs)"

function strip_think :: "string \<Rightarrow> string" where
  "strip_think [] = []"
| "strip_think (c # cs) =
     (if prefix open_tag (c # cs)
      then (case find_close (drop (length open_tag) (c # cs)) of
              Some rest \<Rightarrow> strip_think rest
            | None \<Rightarrow> c # strip_think cs)
      else c # strip_think cs)"
  by pat_completeness auto
termination
proof -
  have fc: "\<And>t r. find_close t = Some r \<Longrightarrow> length r \<le> length t"
  proof -
    fix t r
    show "find_close t = Some r \<Longrightarrow> length r \<le> length t"
      by (induction t) (auto split: if_splits)
  qed
  show ?thesis
    by (relation "measure length") (auto dest!: fc simp: open_tag_def)
qed

subsection \<open>Facts about the tags\<close>

lemma open_tag_shape [simp]: "open_tag \<noteq> []" "hd open_tag \<notin> set (tl open_tag)"
  by (simp_all add: open_tag_def)

lemma close_tag_shape [simp]: "close_tag \<noteq> []" "hd close_tag \<notin> set (tl close_tag)"
  by (simp_all add: close_tag_def)

subsection \<open>The regex model computes the direct scanner\<close>

lemma lazy_star_close:
  "lazy_star True t (\<lambda>s'. rmatch (RLit close_tag) s' Some) = find_close t"
  by (induction t) (simp_all split: option.splits)

lemma rmatch_think_pattern:
  "rmatch think_pattern s Some =
     (if prefix open_tag s then find_close (drop (length open_tag) s) else None)"
proof -
  have "rmatch think_pattern s Some = rmatch (RLit open_tag) s find_close"
    by (simp add: think_pattern_def lazy_star_close del: rmatch.simps(1))
  then show ?thesis by simp
qed

lemma find_close_suffix:
  "find_close t = Some r \<Longrightarrow> suffix r t \<and> length r < length t"
proof (induction t)
  case Nil
  then show ?case by simp
next
  case (Cons c cs)
  then show ?case
    by (auto simp: suffix_drop suffix_ConsI split: if_splits
             dest: suffix_order.trans [OF _ suffix_ConsI [OF suffix_order.refl]])
qed

lemma re_sub_think_pattern:
  "re_sub think_pattern [] s = strip_think s"
proof (induction s rule: strip_think.induct)
  case 1
  then show ?case by (simp add: rmatch_think_pattern)
next
  case (2 c cs)
  show ?case
  proof (cases "prefix open_tag (c # cs)")
    case True
    show ?thesis
    proof (cases "find_close (drop (length open_tag) (c # cs))")
      case None
      with True "2.IH" show ?thesis by (simp add: rmatch_think_pattern)
    next
      case (Some rest)
      then have "length rest < length (c # cs)"
        using find_close_suffix [of _ rest] by fastforce
      moreover have "re_sub think_pattern [] rest = strip_think rest"
        using "2.IH"(2) [OF True Some] .
      ultimately show ?thesis using True Some by (simp add: rmatch_think_pattern)
    qed
  next
    case False
    with "2.IH"(3) show ?thesis by (simp add: rmatch_think_pattern)
  qed
qed

subsection \<open>Characterisation of the scanner\<close>

lemma find_close_after:
  "\<not> sublist close_tag m \<Longrightarrow> find_close (m @ close_tag @ v) = Some v"
proof (induction m)
  case Nil
  show ?case by (simp add: close_tag_def)
next
  case (Cons c m)
  have "\<not> prefix close_tag ((c # m) @ close_tag @ v)"
    using prefix_borderless [of close_tag "c # m" v] Cons.prems by auto
  moreover have "find_close (m @ close_tag @ v) = Some v"
    using Cons.IH Cons.prems by (blast dest: not_sublist_Cons)
  ultimately show ?case by simp
qed

lemma strip_think_leftmost:
  assumes "\<not> sublist open_tag u" and "\<not> sublist close_tag m"
  shows "strip_think (u @ open_tag @ m @ close_tag @ v) = u @ strip_think v"
  using assms(1)
proof (induction u)
  case Nil
  have "find_close (m @ close_tag @ v) = Some v"
    using assms(2) by (rule find_close_after)
  then show ?case by (simp add: open_tag_def)
next
  case (Cons c u)
  have "\<not> prefix open_tag ((c # u) @ open_tag @ m @ close_tag @ v)"
    using prefix_borderless [of open_tag "c # u"] Cons.prems by auto
  moreover have "strip_think (u @ open_tag @ m @ close_tag @ v) = u @ strip_think v"
    using Cons.IH Cons.prems by (blast dest: not_sublist_Cons)
  ultimately show ?case by simp
qed

lemma find_close_absent: "\<not> sublist close_tag t \<Longrightarrow> find_close t = None"
  by (induction t) (auto dest: not_sublist_Cons)

lemma strip_think_no_close: "\<not> sublist close_tag s \<Longrightarrow> strip_think s = s"
proof (induction s rule: strip_think.induct)
  case 1
  then show ?case by simp
next
  case (2 c cs)
  have cs: "\<not> sublist close_tag cs" using "2.prems" by (rule not_sublist_Cons)
  have "find_close (drop (length open_tag) (c # cs)) = None"
    using not_sublist_drop [OF "2.prems"] by (rule find_close_absent)
  then show ?case using "2.IH"(1,3) cs by simp
qed

lemma strip_think_subseq: "subseq (strip_think s) s"
proof (induction s rule: strip_think.induct)
  case 1
  then show ?case by simp
next
  case (2 c cs)
  show ?case
  proof (cases "prefix open_tag (c # cs)")
    case True
    show ?thesis
    proof (cases "find_close (drop (length open_tag) (c # cs))")
      case None
      with True "2.IH"(1) show ?thesis by simp
    next
      case (Some rest)
      then have "suffix rest (drop (length open_tag) (c # cs))"
        using find_close_suffix by blast
      then have "subseq rest (c # cs)"
        by (meson suffix_drop suffix_imp_subseq suffix_order.order_trans)
      moreover have "subseq (strip_think rest) rest" using "2.IH"(2) [OF True Some] .
      ultimately show ?thesis using True Some by (simp add: subseq_order.order_trans)
    qed
  next
    case False
    with "2.IH"(3) show ?thesis by simp
  qed
qed

lemma find_close_present: "sublist close_tag t \<Longrightarrow> find_close t \<noteq> None"
proof (induction t)
  case Nil
  then show ?case by simp
next
  case (Cons c cs)
  show ?case
  proof (cases "prefix close_tag (c # cs)")
    case False
    with Cons.prems have "sublist close_tag cs" by (simp add: sublist_Cons_right)
    with False Cons.IH show ?thesis by simp
  qed simp
qed

lemma find_close_split: "find_close t = Some r \<Longrightarrow> \<exists>m. t = m @ close_tag @ r"
proof (induction t)
  case Nil
  then show ?case by simp
next
  case (Cons c cs)
  show ?case
  proof (cases "prefix close_tag (c # cs)")
    case True
    with Cons.prems have "c # cs = [] @ close_tag @ r"
      by (auto elim!: prefixE)
    then show ?thesis by blast
  next
    case False
    with Cons.prems obtain m where "cs = m @ close_tag @ r" using Cons.IH by auto
    then have "c # cs = (c # m) @ close_tag @ r" by simp
    then show ?thesis by blast
  qed
qed

lemma strip_think_length_le [simp]: "length (strip_think s) \<le> length s"
  using strip_think_subseq by (rule list_emb_length)

text \<open>A text that holds a complete span is shortened by the scanner \<dots>\<close>

lemma strip_think_span_shorter:
  "s = u @ open_tag @ m @ close_tag @ v \<Longrightarrow> length (strip_think s) < length s"
proof (induction s arbitrary: u rule: strip_think.induct)
  case 1
  then show ?case by simp
next
  case (2 c cs)
  show ?case
  proof (cases "prefix open_tag (c # cs)")
    case True
    show ?thesis
    proof (cases "find_close (drop (length open_tag) (c # cs))")
      case None
      have "u \<noteq> []"
      proof
        assume "u = []"
        then have "drop (length open_tag) (c # cs) = m @ close_tag @ v" using "2.prems" by simp
        then have "find_close (drop (length open_tag) (c # cs)) \<noteq> None"
          by (intro find_close_present) (simp add: sublist_appendI)
        with None show False by simp
      qed
      then obtain u' where u: "u = c # u'" and cs: "cs = u' @ open_tag @ m @ close_tag @ v"
        using "2.prems" by (cases u) auto
      show ?thesis using "2.IH"(1) [OF True None cs] True None by simp
    next
      case (Some rest)
      then have "length rest < length (drop (length open_tag) (c # cs))"
        by (blast dest: find_close_suffix)
      then have "length rest < length (c # cs)" by simp
      then have "length (strip_think rest) < length (c # cs)"
        using strip_think_length_le [of rest] by linarith
      then show ?thesis using True Some by simp
    qed
  next
    case False
    then obtain u' where cs: "cs = u' @ open_tag @ m @ close_tag @ v"
      using "2.prems" by (cases u) auto
    show ?thesis using "2.IH"(3) [OF False cs] False by simp
  qed
qed

text \<open>\<dots> and a text without one is left as it is.\<close>

lemma strip_think_no_span:
  "\<not> (\<exists>u m v. s = u @ open_tag @ m @ close_tag @ v) \<Longrightarrow> strip_think s = s"
proof (induction s rule: strip_think.induct)
  case 1
  then show ?case by simp
next
  case (2 c cs)
  have cs: "\<not> (\<exists>u m v. cs = u @ open_tag @ m @ close_tag @ v)"
  proof
    assume "\<exists>u m v. cs = u @ open_tag @ m @ close_tag @ v"
    then obtain u m v where "c # cs = (c # u) @ open_tag @ m @ close_tag @ v" by auto
    with "2.prems" show False by blast
  qed
  have nc: "find_close (drop (length open_tag) (c # cs)) = None" if p: "prefix open_tag (c # cs)"
  proof (rule ccontr)
    assume "find_close (drop (length open_tag) (c # cs)) \<noteq> None"
    then obtain m r where "drop (length open_tag) (c # cs) = m @ close_tag @ r"
      using find_close_split by blast
    moreover have "c # cs = open_tag @ drop (length open_tag) (c # cs)"
      using p by (auto elim!: prefixE)
    ultimately have "c # cs = [] @ open_tag @ m @ close_tag @ r" by simp
    with "2.prems" show False by blast
  qed
  show ?case
  proof (cases "prefix open_tag (c # cs)")
    case True
    with nc "2.IH"(1) [OF True _ cs] show ?thesis by simp
  next
    case False
    with "2.IH"(3) [OF False cs] show ?thesis by simp
  qed
qed

text \<open>The facts that evaluate the scanner and \<^verbatim>\<open>strip()\<close> on a concrete text.\<close>

lemmas sanitizer_eval = open_tag_def close_tag_def py_strip_def py_isspace_def py_whitespace_def

subsection \<open>Properties of the sanitizer\<close>

text \<open>
  C2: the sanitizer of the code, \<^verbatim>\<open>re.sub\<close> with the compiled pattern followed by
  \<^verbatim>\<open>strip()\<close>, computes the same text as the direct scanner \<open>strip_think\<close>
  followed by \<^verbatim>\<open>strip()\<close>, on every response.
\<close>

theorem clean_response_eq_scan: "clean_response s = py_strip (strip_think s)"
  by (simp add: clean_response_def re_sub_think_pattern)

text \<open>
  C3: \<^verbatim>\<open>re.sub\<close> removes the leftmost reasoning span up to the first closing tag after
  it (the lazy star), keeps the text before it, and goes on behind it: if the text
  before the opening tag has no \<^verbatim>\<open><think>\<close> and the body has no \<^verbatim>\<open></think>\<close>,
  the span is removed and the rest is sanitized in turn.
\<close>

theorem re_sub_leftmost_shortest:
  assumes "\<not> sublist open_tag u" and "\<not> sublist close_tag m"
  shows "re_sub think_pattern [] (u @ open_tag @ m @ close_tag @ v) =
           u @ re_sub think_pattern [] v"
  using strip_think_leftmost [OF assms] by (simp add: re_sub_think_pattern)

theorem re_sub_leftmost_shortest_witness:
  "\<not> sublist open_tag ''A'' \<and> \<not> sublist close_tag ''B'' \<and>
   re_sub think_pattern [] (''A'' @ open_tag @ ''B'' @ close_tag @ ''C'') =
     ''A'' @ re_sub think_pattern [] ''C''"
proof -
  have h: "\<not> sublist open_tag ''A''" "\<not> sublist close_tag ''B''"
    by (simp_all add: open_tag_def close_tag_def sublist_code)
  show ?thesis using h re_sub_leftmost_shortest [OF h, of "''C''"] by simp
qed

text \<open>
  C4: the sanitizer is not idempotent, contrary to the specification's
  \<^verbatim>\<open>sanitize(sanitize(x)) == sanitize(x)\<close> (section 8).  A second pass changes the
  sanitized text exactly when the first pass left a complete reasoning span in it: such a
  span is removed and the text gets shorter, and without one \<^verbatim>\<open>re.sub\<close> leaves the
  text as it is and \<^verbatim>\<open>strip()\<close> finds nothing more to strip.  Removing a span can
  join the text around it into a new span, as in
  \<^verbatim>\<open><thi<think>x</think>nk>a</think>\<close>.
\<close>

theorem clean_response_second_pass_changes:
  "clean_response (clean_response x) \<noteq> clean_response x \<longleftrightarrow>
   (\<exists>u m v. clean_response x = u @ open_tag @ m @ close_tag @ v)"
proof -
  let ?y = "clean_response x"
  have eq: "clean_response ?y = py_strip (strip_think ?y)"
    by (simp only: clean_response_def [of ?y] re_sub_think_pattern)
  show ?thesis
  proof
    assume ne: "clean_response ?y \<noteq> ?y"
    show "\<exists>u m v. ?y = u @ open_tag @ m @ close_tag @ v"
    proof (rule ccontr)
      assume "\<not> (\<exists>u m v. ?y = u @ open_tag @ m @ close_tag @ v)"
      then have "strip_think ?y = ?y" by (rule strip_think_no_span)
      then have "clean_response ?y = ?y"
        unfolding eq by (simp add: clean_response_def py_strip_idem)
      with ne show False by simp
    qed
  next
    assume "\<exists>u m v. ?y = u @ open_tag @ m @ close_tag @ v"
    then obtain u m v where "?y = u @ open_tag @ m @ close_tag @ v" by blast
    then have "length (strip_think ?y) < length ?y" by (rule strip_think_span_shorter)
    moreover have "length (py_strip (strip_think ?y)) \<le> length (strip_think ?y)"
      by (rule sublist_length_le [OF py_strip_sublist])
    ultimately show "clean_response ?y \<noteq> ?y" unfolding eq by (metis leD le_less_trans)
  qed
qed

theorem clean_response_second_pass_changes_witness:
  "clean_response ''<thi<think>x</think>nk>a</think>'' = [] @ open_tag @ ''a'' @ close_tag @ [] \<and>
   clean_response (clean_response ''<thi<think>x</think>nk>a</think>'') \<noteq>
     clean_response ''<thi<think>x</think>nk>a</think>''"
proof -
  have c: "clean_response ''<thi<think>x</think>nk>a</think>'' = [] @ open_tag @ ''a'' @ close_tag @ []"
    unfolding clean_response_def re_sub_think_pattern by (simp add: sanitizer_eval)
  then have "\<exists>u m v. clean_response ''<thi<think>x</think>nk>a</think>'' = u @ open_tag @ m @ close_tag @ v"
    by blast
  with c show ?thesis using clean_response_second_pass_changes [of "''<thi<think>x</think>nk>a</think>''"]
    by blast
qed

text \<open>
  C13: the sanitizer only deletes: its output is a subsequence of the model's response,
  so it never introduces text the model did not produce.
\<close>

theorem clean_response_subseq: "subseq (clean_response s) s"
proof -
  have "subseq (py_strip (strip_think s)) (strip_think s)"
    by (rule sublist_imp_subseq) (rule py_strip_sublist)
  then show ?thesis
    using strip_think_subseq subseq_order.order_trans
    by (fastforce simp: clean_response_def re_sub_think_pattern)
qed

text \<open>
  C14: an opening tag that is never closed is not a match: a response without any
  \<^verbatim>\<open></think>\<close> goes through \<^verbatim>\<open>re.sub\<close> unchanged, so an unterminated reasoning
  block reaches the user.
\<close>

theorem re_sub_unclosed_kept:
  "\<not> sublist close_tag s \<Longrightarrow> re_sub think_pattern [] s = s"
  by (simp add: re_sub_think_pattern strip_think_no_close)

theorem re_sub_unclosed_kept_witness:
  "\<not> sublist close_tag ''<think>abc'' \<and>
   re_sub think_pattern [] ''<think>abc'' = ''<think>abc''"
proof -
  have h: "\<not> sublist close_tag ''<think>abc''"
    by (simp add: close_tag_def sublist_code)
  show ?thesis using h re_sub_unclosed_kept [OF h] by simp
qed

text \<open>
  C18: a non-empty sanitized response neither starts nor ends with whitespace.
\<close>

theorem clean_response_trimmed:
  "clean_response s \<noteq> [] \<Longrightarrow>
   \<not> py_isspace (hd (clean_response s)) \<and> \<not> py_isspace (last (clean_response s))"
  unfolding clean_response_def by (simp add: py_strip_no_leading py_strip_no_trailing)

theorem clean_response_trimmed_witness:
  "clean_response '' ok '' \<noteq> [] \<and>
   \<not> py_isspace (hd (clean_response '' ok '')) \<and> \<not> py_isspace (last (clean_response '' ok ''))"
proof -
  have h: "clean_response '' ok '' = ''ok''"
    unfolding clean_response_def re_sub_think_pattern by (simp add: sanitizer_eval)
  then have "clean_response '' ok '' \<noteq> []" by simp
  with clean_response_trimmed [of "'' ok ''"] show ?thesis by simp
qed

end
