(* ===== verification/Humanizer.thy ===== *)
theory Humanizer
  imports Complex_Main Templates Sanitizer
begin

text \<open>
  The humanizer object, class \<^verbatim>\<open>TextHumanizerRAG\<close> of \<open>src/app.py\<close> (lines 17--121).
  Its attributes are the record \<open>text_humanizer_rag\<close>; the \<^verbatim>\<open>ChatGroq\<close> client it
  holds is represented by the configuration it was built from (\<open>client_config\<close>: model,
  temperature, key), since the client does nothing but carry these to the remote
  service.  The remote service is an interface, \<open>groq_backend\<close>: a constructor check
  (\<open>Some msg\<close> when \<^verbatim>\<open>ChatGroq(...)\<close> raises) and the remote call (\<open>Inl msg\<close> when
  \<^verbatim>\<open>llm.invoke\<close> raises, \<open>Inr content\<close> for \<^verbatim>\<open>response.content\<close>); every theorem holds
  for every backend.  The methods are state-passing functions that return the new
  object; exceptions are \<open>py_exc\<close> values, and the \<^verbatim>\<open>try\<close>/\<^verbatim>\<open>except\<close> of
  \<^verbatim>\<open>humanize_text\<close> turns each into the text \<^verbatim>\<open>"Error: " + str(e)\<close>.
  Temperatures are reals: the code only compares them with \<^verbatim>\<open>!=\<close> and passes them on
  (NaN, whose \<^verbatim>\<open>!=\<close> is always true, is not modelled).
\<close>

subsection \<open>Messages, client and state\<close>

datatype message = SystemMessage string | HumanMessage string

record client_config =
  cfg_model :: string
  cfg_temperature :: real
  cfg_api_key :: string

record groq_backend =
  groq_construct :: "client_config \<Rightarrow> string option"
  groq_invoke :: "client_config \<Rightarrow> message list \<Rightarrow> string + string"

record text_humanizer_rag =
  api_key :: string
  model :: string
  llm :: "client_config option"
  temperature :: real

text \<open>The system message of lines 99--110, with its indentation and line breaks.\<close>

definition system_directive :: string where
  "system_directive =
     ''\<newline>                            You are a highly skilled writing assistant specialized in transforming robotic or overly technical text into clear, engaging, and human-like blog-style content.\<newline>\<newline>                            Your task is to:\<newline>                            - Maintain the original meaning and factual accuracy.\<newline>                            - Use a natural, conversational tone appropriate for blog readers.\<newline>                            - Organize content using clear **headings**, **subheadings**, and **bullet points** or **numbered lists** where appropriate.\<newline>                            - Highlight key ideas with formatting if needed (e.g., bold or italics).\<newline>                            - Add helpful transitions and context to improve readability.\<newline>                            - Ensure the final result reads like a professional and informative blog post.\<newline>                            - keep the Blog Post atleast 1500 words Minimum\<newline>                                ''"

subsection \<open>Methods\<close>

text \<open>
  \<^verbatim>\<open>update_model_settings(model, temperature)\<close>: the two attributes are assigned
  first; then the client is built, and if its constructor raises, the exception
  propagates with the attributes already changed and the old client kept.
\<close>

definition update_model_settings ::
  "groq_backend \<Rightarrow> string \<Rightarrow> real \<Rightarrow> text_humanizer_rag \<Rightarrow> py_exc option \<times> text_humanizer_rag" where
  "update_model_settings be m t self =
     (let self1 = self\<lparr>model := m, temperature := t\<rparr>;
          cfg = \<lparr>cfg_model = model self1, cfg_temperature = t, cfg_api_key = api_key self1\<rparr>
      in case groq_construct be cfg of
           Some err \<Rightarrow> (Some (ClientError err), self1)
         | None \<Rightarrow> (None, self1\<lparr>llm := Some cfg\<rparr>))"

text \<open>\<^verbatim>\<open>TextHumanizerRAG(api_key)\<close>: the constructor; an exception aborts it.\<close>

definition TextHumanizerRAG_init :: "groq_backend \<Rightarrow> string \<Rightarrow> py_exc + text_humanizer_rag" where
  "TextHumanizerRAG_init be key =
     (let self0 = \<lparr>api_key = key, model = ''gemma2-9b-it'', llm = None, temperature = 0.7\<rparr>
      in case update_model_settings be (model self0) (temperature self0) self0 of
           (Some e, _) \<Rightarrow> Inl e
         | (None, self) \<Rightarrow> Inr self)"

definition error_text :: "py_exc \<Rightarrow> string" where
  "error_text e = ''Error: '' @ py_str_exc e"

definition none_invoke_error :: py_exc where
  "none_invoke_error = AttributeError ([py_quote] @ ''NoneType'' @ [py_quote] @
     '' object has no attribute '' @ [py_quote] @ ''invoke'' @ [py_quote])"

text \<open>
  \<^verbatim>\<open>humanize_text(text, style, temperature)\<close>: reconfigure when the temperature
  differs, build the prompt, send the two messages to the configured client, sanitize
  the answer; any exception becomes the returned error text.  The object is returned
  with the result, since the reconfiguration persists.
\<close>

definition humanize_text ::
  "groq_backend \<Rightarrow> string \<Rightarrow> string \<Rightarrow> real \<Rightarrow> text_humanizer_rag \<Rightarrow> string \<times> text_humanizer_rag" where
  "humanize_text be text style t self =
     (let (exc, self1) =
        (if temperature self \<noteq> t then update_model_settings be (model self) t self else (None, self))
      in case exc of
           Some e \<Rightarrow> (error_text e, self1)
         | None \<Rightarrow>
             (case create_humanization_prompt text style of
                Inl e \<Rightarrow> (error_text e, self1)
              | Inr prompt \<Rightarrow>
                  (let messages = [SystemMessage system_directive, HumanMessage prompt]
                   in case llm self1 of
                        None \<Rightarrow> (error_text none_invoke_error, self1)
                      | Some cfg \<Rightarrow>
                          (case groq_invoke be cfg messages of
                             Inl err \<Rightarrow> (error_text (APIError err), self1)
                           | Inr content \<Rightarrow> (clean_response content, self1)))))"

subsection \<open>Specification and invariant\<close>

text \<open>The client configuration that the recorded attributes describe.\<close>

definition config_of :: "text_humanizer_rag \<Rightarrow> client_config" where
  "config_of self =
     \<lparr>cfg_model = model self, cfg_temperature = temperature self, cfg_api_key = api_key self\<rparr>"

text \<open>
  The invariant: the client in use is the one the recorded model, temperature and key
  describe.  \<^verbatim>\<open>humanize_text\<close> relies on it when it skips the reconfiguration for an
  unchanged temperature.
\<close>

definition rag_inv :: "text_humanizer_rag \<Rightarrow> bool" where
  "rag_inv self \<longleftrightarrow> llm self = Some (config_of self)"

text \<open>
  The contract of the pipeline in the specification (section 4.2): one remote call with
  the given client configuration and the two messages (fixed system directive, style
  template with the user's text), a failure reported as \<^verbatim>\<open>"Error: ..."\<close>, a success
  sanitized.
\<close>

definition humanize_spec :: "groq_backend \<Rightarrow> client_config \<Rightarrow> string \<Rightarrow> string \<Rightarrow> string" where
  "humanize_spec be cfg text style =
     (case groq_invoke be cfg [SystemMessage system_directive,
                              HumanMessage (prompt_layout (resolve_style style) text)] of
        Inl err \<Rightarrow> ''Error: '' @ err
      | Inr content \<Rightarrow> clean_response content)"

text \<open>
  Test doubles for the remote service, as the specification suggests: one that accepts
  every configuration and answers with the model name it was configured with, and one
  whose constructor rejects the temperature 0.5.
\<close>

definition echo_backend :: groq_backend where
  "echo_backend = \<lparr>groq_construct = (\<lambda>cfg. None), groq_invoke = (\<lambda>cfg msgs. Inr (cfg_model cfg))\<rparr>"

definition picky_backend :: groq_backend where
  "picky_backend =
     \<lparr>groq_construct = (\<lambda>cfg. if cfg_temperature cfg = 0.5 then Some ''bad temperature'' else None),
      groq_invoke = (\<lambda>cfg msgs. Inr (cfg_model cfg))\<rparr>"

definition demo_state :: text_humanizer_rag where
  "demo_state =
     \<lparr>api_key = ''k'', model = ''gemma2-9b-it'',
      llm = Some \<lparr>cfg_model = ''gemma2-9b-it'', cfg_temperature = 0.7, cfg_api_key = ''k''\<rparr>,
      temperature = 0.7\<rparr>"

subsection \<open>Lemmas on the methods\<close>

lemma config_of_upd [simp]:
  "config_of (self\<lparr>model := m, temperature := t\<rparr>) =
     \<lparr>cfg_model = m, cfg_temperature = t, cfg_api_key = api_key self\<rparr>"
  "config_of (self\<lparr>temperature := t\<rparr>) =
     \<lparr>cfg_model = model self, cfg_temperature = t, cfg_api_key = api_key self\<rparr>"
  by (simp_all add: config_of_def)

lemma update_model_settings_ok:
  "groq_construct be (config_of (self\<lparr>model := m, temperature := t\<rparr>)) = None \<Longrightarrow>
   update_model_settings be m t self =
     (None, self\<lparr>model := m, temperature := t,
                llm := Some (config_of (self\<lparr>model := m, temperature := t\<rparr>))\<rparr>)"
  by (simp add: update_model_settings_def)

lemma update_model_settings_fail:
  "groq_construct be (config_of (self\<lparr>model := m, temperature := t\<rparr>)) = Some err \<Longrightarrow>
   update_model_settings be m t self = (Some (ClientError err), self\<lparr>model := m, temperature := t\<rparr>)"
  by (simp add: update_model_settings_def)

lemma TextHumanizerRAG_init_ok:
  "groq_construct be \<lparr>cfg_model = ''gemma2-9b-it'', cfg_temperature = 0.7, cfg_api_key = key\<rparr> = None \<Longrightarrow>
   TextHumanizerRAG_init be key =
     Inr \<lparr>api_key = key, model = ''gemma2-9b-it'',
          llm = Some \<lparr>cfg_model = ''gemma2-9b-it'', cfg_temperature = 0.7, cfg_api_key = key\<rparr>,
          temperature = 0.7\<rparr>"
  by (simp add: TextHumanizerRAG_init_def update_model_settings_def Let_def)

lemma rag_inv_after_update:
  "rag_inv (self\<lparr>model := m, temperature := t,
                  llm := Some (config_of (self\<lparr>model := m, temperature := t\<rparr>))\<rparr>)"
  by (simp add: rag_inv_def config_of_def)

text \<open>
  \<^verbatim>\<open>humanize_text\<close> after the reconfiguration step: a constructor failure is reported,
  a missing client is reported, and otherwise the call is exactly the specified one with
  the client in use.
\<close>

lemma humanize_text_eq:
  "humanize_text be text style t self =
     (let (exc, self1) =
        (if temperature self \<noteq> t then update_model_settings be (model self) t self else (None, self))
      in case exc of
           Some e \<Rightarrow> (error_text e, self1)
         | None \<Rightarrow>
             (case llm self1 of
                None \<Rightarrow> (error_text none_invoke_error, self1)
              | Some cfg \<Rightarrow> (humanize_spec be cfg text style, self1)))"
  by (simp add: humanize_text_def create_humanization_prompt_eq humanize_spec_def error_text_def
           split: prod.split option.split sum.split)

lemma error_text_prefix: "prefix ''Error: '' (error_text e)"
  by (simp add: error_text_def)

lemma humanize_spec_shape:
  "prefix ''Error: '' (humanize_spec be cfg text style) \<or>
   (\<exists>c. humanize_spec be cfg text style = clean_response c)"
  by (auto simp: humanize_spec_def split: sum.split)

lemma humanize_text_unchanged_temperature:
  "llm self = Some cfg \<Longrightarrow>
   humanize_text be text style (temperature self) self = (humanize_spec be cfg text style, self)"
  by (simp add: humanize_text_def create_humanization_prompt_eq humanize_spec_def error_text_def
           split: sum.split)

lemma humanize_text_new_temperature:
  "temperature self \<noteq> t \<Longrightarrow> groq_construct be (config_of (self\<lparr>temperature := t\<rparr>)) = None \<Longrightarrow>
   humanize_text be text style t self =
     (humanize_spec be (config_of (self\<lparr>temperature := t\<rparr>)) text style,
      self\<lparr>temperature := t, llm := Some (config_of (self\<lparr>temperature := t\<rparr>))\<rparr>)"
  using update_model_settings_ok [where be = be and m = "model self" and t = t and self = self]
  by (simp add: humanize_text_eq)

lemma rag_inv_temperature_same:
  "rag_inv self \<Longrightarrow> self\<lparr>temperature := temperature self, llm := Some (config_of self)\<rparr> = self"
  by (simp add: rag_inv_def)

subsection \<open>Properties of the humanizer\<close>

text \<open>
  C1: refinement of the pipeline contract.  From a consistent object, and with a
  backend that accepts the new configuration, \<^verbatim>\<open>humanize_text\<close> returns exactly the
  specified result for the client configured with the recorded model and key and the
  requested temperature, whatever the temperature (no clamping to [0.1, 1.0]), and
  leaves the object configured with that temperature.
\<close>

theorem humanize_text_refines:
  assumes inv: "rag_inv self"
    and ok: "groq_construct be (config_of (self\<lparr>temperature := t\<rparr>)) = None"
  shows "humanize_text be text style t self =
           (humanize_spec be (config_of (self\<lparr>temperature := t\<rparr>)) text style,
            self\<lparr>temperature := t, llm := Some (config_of (self\<lparr>temperature := t\<rparr>))\<rparr>)"
proof (cases "temperature self = t")
  case True
  then have t: "t = temperature self" by simp
  from inv have l: "llm self = Some (config_of self)" by (simp add: rag_inv_def)
  have "self\<lparr>temperature := temperature self\<rparr> = self" by simp
  then show ?thesis
    unfolding t
    using humanize_text_unchanged_temperature [OF l] rag_inv_temperature_same [OF inv]
    by (simp del: config_of_upd)
next
  case False
  from False ok show ?thesis by (rule humanize_text_new_temperature)
qed

theorem humanize_text_refines_witness:
  "rag_inv demo_state \<and>
   groq_construct echo_backend (config_of (demo_state\<lparr>temperature := 0.5\<rparr>)) = None \<and>
   humanize_text echo_backend ''hello'' ''friendly'' 0.5 demo_state =
     (humanize_spec echo_backend (config_of (demo_state\<lparr>temperature := 0.5\<rparr>)) ''hello'' ''friendly'',
      demo_state\<lparr>temperature := 0.5, llm := Some (config_of (demo_state\<lparr>temperature := 0.5\<rparr>))\<rparr>)"
proof -
  have h1: "rag_inv demo_state" by (simp add: rag_inv_def demo_state_def config_of_def)
  have h2: "groq_construct echo_backend (config_of (demo_state\<lparr>temperature := 0.5\<rparr>)) = None"
    by (simp add: echo_backend_def)
  show ?thesis using h1 h2 humanize_text_refines [OF h1 h2] by blast
qed

text \<open>
  \<^verbatim>\<open>humanize_text\<close> never raises: for every backend, object and input, the result is
  either an error text beginning with \<^verbatim>\<open>"Error: "\<close> or the sanitized content of a
  response the backend returned for the system directive and a prompt.
\<close>

lemma humanize_text_result_shape:
  "prefix ''Error: '' (fst (humanize_text be text style t self)) \<or>
   (\<exists>cfg p c. groq_invoke be cfg [SystemMessage system_directive, HumanMessage p] = Inr c \<and>
              fst (humanize_text be text style t self) = clean_response c)"
  using error_text_prefix
  by (auto simp: humanize_text_def error_text_def split: prod.split option.split sum.split)

text \<open>
  C5: a failed reconfiguration leaves a stale client.  If the constructor raises for the
  new temperature, the object records that temperature but keeps the old client, and the
  next call with the same temperature skips the reconfiguration and is served by the
  client built for the old temperature, contrary to the specification's "changing
  temperature between calls updates the configured sampling temperature used on the
  next call".
\<close>

theorem stale_client_after_failed_update:
  assumes inv: "rag_inv self" and new: "temperature self \<noteq> t"
    and fail: "groq_construct be (config_of (self\<lparr>temperature := t\<rparr>)) = Some err"
  shows "temperature (snd (humanize_text be text style t self)) = t \<and>
         \<not> rag_inv (snd (humanize_text be text style t self)) \<and>
         fst (humanize_text be text2 style2 t (snd (humanize_text be text style t self))) =
           humanize_spec be (config_of self) text2 style2"
proof -
  have upd: "update_model_settings be (model self) t self =
               (Some (ClientError err), self\<lparr>temperature := t\<rparr>)"
    using update_model_settings_fail [where be = be and m = "model self" and t = t and self = self]
      fail by simp
  then have st: "snd (humanize_text be text style t self) = self\<lparr>temperature := t\<rparr>"
    using new by (simp add: humanize_text_eq)
  have llm: "llm (self\<lparr>temperature := t\<rparr>) = Some (config_of self)"
    using inv by (simp add: rag_inv_def)
  have "config_of self \<noteq> config_of (self\<lparr>temperature := t\<rparr>)"
    using new by (simp add: config_of_def)
  then have "\<not> rag_inv (self\<lparr>temperature := t\<rparr>)"
    using llm by (simp add: rag_inv_def)
  moreover have "fst (humanize_text be text2 style2 t (self\<lparr>temperature := t\<rparr>)) =
                   humanize_spec be (config_of self) text2 style2"
    using humanize_text_unchanged_temperature [OF llm] by simp
  ultimately show ?thesis using st by simp
qed

theorem stale_client_after_failed_update_witness:
  "rag_inv demo_state \<and> temperature demo_state \<noteq> 0.5 \<and>
   groq_construct picky_backend (config_of (demo_state\<lparr>temperature := 0.5\<rparr>)) = Some ''bad temperature'' \<and>
   temperature (snd (humanize_text picky_backend ''a'' ''friendly'' 0.5 demo_state)) = 0.5 \<and>
   \<not> rag_inv (snd (humanize_text picky_backend ''a'' ''friendly'' 0.5 demo_state)) \<and>
   fst (humanize_text picky_backend ''b'' ''friendly'' 0.5
          (snd (humanize_text picky_backend ''a'' ''friendly'' 0.5 demo_state))) =
     humanize_spec picky_backend (config_of demo_state) ''b'' ''friendly''"
proof -
  have h1: "rag_inv demo_state" by (simp add: rag_inv_def demo_state_def config_of_def)
  have h2: "temperature demo_state \<noteq> 0.5" by (simp add: demo_state_def)
  have h3: "groq_construct picky_backend (config_of (demo_state\<lparr>temperature := 0.5\<rparr>)) =
              Some ''bad temperature''"
    by (simp add: picky_backend_def)
  show ?thesis using h1 h2 h3 stale_client_after_failed_update [OF h1 h2 h3] by blast
qed

text \<open>
  C15: the constructor, when it returns, leaves a consistent object configured with the
  default model \<^verbatim>\<open>gemma2-9b-it\<close> and temperature 0.7 and the given key.
\<close>

theorem init_establishes_inv:
  "TextHumanizerRAG_init be key = Inr self \<Longrightarrow>
   rag_inv self \<and> model self = ''gemma2-9b-it'' \<and> temperature self = 0.7 \<and> api_key self = key"
  by (auto simp: TextHumanizerRAG_init_def update_model_settings_def rag_inv_def config_of_def Let_def
           split: option.splits)

theorem init_establishes_inv_witness:
  "TextHumanizerRAG_init echo_backend ''k'' = Inr demo_state \<and>
   rag_inv demo_state \<and> model demo_state = ''gemma2-9b-it'' \<and> temperature demo_state = 0.7 \<and>
   api_key demo_state = ''k''"
proof -
  have h: "TextHumanizerRAG_init echo_backend ''k'' = Inr demo_state"
    by (simp add: TextHumanizerRAG_init_def update_model_settings_def echo_backend_def demo_state_def)
  show ?thesis using h init_establishes_inv [OF h] by blast
qed

text \<open>
  C30: error results, as the specification's RemoteCallFailure: a constructor failure
  while reconfiguring and a failure of the remote call are both returned as
  \<^verbatim>\<open>"Error: "\<close> followed by the exception's message, never raised.
\<close>

theorem humanize_text_reports_errors:
  "rag_inv self \<Longrightarrow>
   (temperature self \<noteq> t \<longrightarrow> groq_construct be (config_of (self\<lparr>temperature := t\<rparr>)) = Some err \<longrightarrow>
      fst (humanize_text be text style t self) = ''Error: '' @ err) \<and>
   (groq_construct be (config_of (self\<lparr>temperature := t\<rparr>)) = None \<longrightarrow>
    groq_invoke be (config_of (self\<lparr>temperature := t\<rparr>))
      [SystemMessage system_directive, HumanMessage (prompt_layout (resolve_style style) text)] = Inl msg \<longrightarrow>
      fst (humanize_text be text style t self) = ''Error: '' @ msg)"
  by (auto simp: humanize_text_def update_model_settings_def create_humanization_prompt_eq
                 error_text_def rag_inv_def config_of_def)

theorem humanize_text_reports_errors_witness:
  "rag_inv demo_state \<and>
   fst (humanize_text picky_backend ''hello'' ''friendly'' 0.5 demo_state) = ''Error: bad temperature'' \<and>
   fst (humanize_text (echo_backend\<lparr>groq_invoke := (\<lambda>cfg msgs. Inl ''rate limited'')\<rparr>) ''hello'' ''friendly'' 0.7
          demo_state) = ''Error: rate limited''"
proof -
  have i: "rag_inv demo_state" by (simp add: rag_inv_def demo_state_def config_of_def)
  have a: "temperature demo_state \<noteq> 0.5"
    "groq_construct picky_backend (config_of (demo_state\<lparr>temperature := 0.5\<rparr>)) = Some ''bad temperature''"
    by (simp_all add: demo_state_def picky_backend_def config_of_def)
  have b: "groq_construct (echo_backend\<lparr>groq_invoke := (\<lambda>cfg msgs. Inl ''rate limited'')\<rparr>)
             (config_of (demo_state\<lparr>temperature := 0.7\<rparr>)) = None"
    "groq_invoke (echo_backend\<lparr>groq_invoke := (\<lambda>cfg msgs. Inl ''rate limited'')\<rparr>)
       (config_of (demo_state\<lparr>temperature := 0.7\<rparr>))
       [SystemMessage system_directive, HumanMessage (prompt_layout (resolve_style ''friendly'') ''hello'')] =
       Inl ''rate limited''"
    by (simp_all add: echo_backend_def)
  show ?thesis
    using i a b
      humanize_text_reports_errors [OF i, of "0.5" picky_backend "''bad temperature''" "''hello''"
        "''friendly''"]
      humanize_text_reports_errors [OF i, of "0.7"
        "echo_backend\<lparr>groq_invoke := (\<lambda>cfg msgs. Inl ''rate limited'')\<rparr>" _ "''hello''"
        "''friendly''" "''rate limited''"]
    by simp
qed

end
