(* ===== verification/Clipboard.thy ===== *)
theory Clipboard
  imports Py_Prelude
begin

text \<open>
  The copy-to-clipboard script of \<^verbatim>\<open>main\<close> (\<open>src/app.py\<close>, lines 172--210).  The
  result text is spliced into a JavaScript template literal,
  \<^verbatim>\<open>const text = `...`;\<close>, after four \<^verbatim>\<open>str.replace\<close> calls (line 193): backtick,
  \<^verbatim>\<open>${\<close>, line feed and carriage return are escaped; a backslash is not.
  \<open>js_escape\<close> is that chain; \<open>js_escape_direct\<close> is a one-pass description of it.
  \<open>js_tpl\<close> reads the body of a template literal the way a JavaScript engine computes
  its cooked value (ECMAScript, template literal lexical grammar): it returns the value
  and the source text after the closing backtick.  Besides syntax errors, \<open>None\<close> also
  stands for what the reader does not cover: substitutions \<^verbatim>\<open>${...}\<close> and the numeric
  escapes \<^verbatim>\<open>\x\<close>, \<^verbatim>\<open>\u\<close>, \<^verbatim>\<open>\1\<close>--\<^verbatim>\<open>\9\<close>.  The lemmas show the round trip
  for text without backslashes, and that a backslash lets the text end the literal
  early and run as script.
\<close>

definition bslash :: char where
  "bslash = CHR 0x5C"

definition btick :: char where
  "btick = CHR 0x60"

text \<open>Line 193: \<^verbatim>\<open>.replace('`', '\\`').replace('${', '\\${').replace(chr(10), '\\n').replace(chr(13), '\\r')\<close>.\<close>

definition js_escape :: "string \<Rightarrow> string" where
  "js_escape s =
     py_replace [CHR 0x0D] [bslash, CHR ''r''] (
       py_replace [CHR 0x0A] [bslash, CHR ''n''] (
         py_replace ''${'' (bslash # ''${'') (
           py_replace [btick] [bslash, btick] s)))"

text \<open>The statement of the script that receives the text (line 193).\<close>

definition copy_script_line :: "string \<Rightarrow> string" where
  "copy_script_line h = ''const text = '' @ [btick] @ js_escape h @ [btick, CHR '';'']"

text \<open>The escaping, one character at a time.\<close>

definition esc_one :: "char \<Rightarrow> string" where
  "esc_one c =
     (if c = btick then [bslash, btick]
      else if c = CHR 0x0A then [bslash, CHR ''n'']
      else if c = CHR 0x0D then [bslash, CHR ''r'']
      else [c])"

fun js_escape_direct :: "string \<Rightarrow> string" where
  "js_escape_direct [] = []"
| "js_escape_direct [c] = esc_one c"
| "js_escape_direct (c # d # cs) =
     (if c = CHR ''$'' \<and> d = CHR ''{'' then bslash # ''${'' @ js_escape_direct cs
      else esc_one c @ js_escape_direct (d # cs))"

text \<open>The \<^verbatim>\<open>${\<close> stage alone, one pass.\<close>

fun escape_dollar_brace :: "string \<Rightarrow> string" where
  "escape_dollar_brace [] = []"
| "escape_dollar_brace [c] = [c]"
| "escape_dollar_brace (c # d # cs) =
     (if c = CHR ''$'' \<and> d = CHR ''{'' then bslash # ''${'' @ escape_dollar_brace cs
      else c # escape_dollar_brace (d # cs))"

text \<open>The number of positions of \<open>s\<close> at which \<open>p\<close> occurs.\<close>

definition occurrences :: "string \<Rightarrow> string \<Rightarrow> nat" where
  "occurrences p s = length (filter (\<lambda>i. prefix p (drop i s)) [0..<length s])"

subsection \<open>Reading a template literal\<close>

definition js_single_escape :: "char \<Rightarrow> char" where
  "js_single_escape d =
     (if d = CHR ''b'' then CHR 0x08 else if d = CHR ''f'' then CHR 0x0C
      else if d = CHR ''n'' then CHR 0x0A else if d = CHR ''r'' then CHR 0x0D
      else if d = CHR ''t'' then CHR 0x09 else if d = CHR ''v'' then CHR 0x0B
      else d)"

definition js_cons :: "char \<Rightarrow> (string \<times> string) option \<Rightarrow> (string \<times> string) option" where
  "js_cons c r = map_option (\<lambda>(v, rest). (c # v, rest)) r"

definition skip_lf :: "string \<Rightarrow> string" where
  "skip_lf s = (if s \<noteq> [] \<and> hd s = CHR 0x0A then tl s else s)"

function js_tpl :: "string \<Rightarrow> (string \<times> string) option" where
  "js_tpl [] = None"
| "js_tpl (c # cs) =
     (if c = btick then Some ([], cs)
      else if c = bslash then
        (case cs of
           [] \<Rightarrow> None
         | d # ds \<Rightarrow>
             (if d = CHR 0x0A then js_tpl ds
              else if d = CHR 0x0D then js_tpl (skip_lf ds)
              else if d \<in> set ''123456789xu'' then None
              else if d = CHR ''0'' then
                (if ds \<noteq> [] \<and> hd ds \<in> set ''0123456789'' then None
                 else js_cons (CHR 0x00) (js_tpl ds))
              else js_cons (js_single_escape d) (js_tpl ds)))
      else if c = CHR ''$'' \<and> cs \<noteq> [] \<and> hd cs = CHR ''{'' then None
      else if c = CHR 0x0D then js_cons (CHR 0x0A) (js_tpl (skip_lf cs))
      else js_cons c (js_tpl cs))"
  by pat_completeness auto
termination
  by (relation "measure length") (auto simp: skip_lf_def)

subsection \<open>The replace chain is the one-pass escape\<close>

lemma special_chars_distinct [simp]:
  "bslash \<noteq> btick" "btick \<noteq> bslash" "bslash \<noteq> CHR ''$''" "btick \<noteq> CHR ''$''"
  "bslash \<noteq> CHR ''{''" "btick \<noteq> CHR ''{''" "bslash \<noteq> CHR 0x0A" "bslash \<noteq> CHR 0x0D"
  "btick \<noteq> CHR 0x0A" "btick \<noteq> CHR 0x0D" "CHR ''$'' \<noteq> btick" "CHR ''{'' \<noteq> btick"
  "CHR ''$'' \<noteq> bslash" "CHR ''{'' \<noteq> bslash"
  by (simp_all add: bslash_def btick_def)

lemma py_replace_dollar_brace:
  "py_replace ''${'' (bslash # ''${'') s = escape_dollar_brace s"
proof (induction s rule: escape_dollar_brace.induct)
  case 1
  then show ?case by simp
next
  case (2 c)
  then show ?case by simp
next
  case (3 c d cs)
  show ?case
  proof (cases "c = CHR ''$'' \<and> d = CHR ''{''")
    case True
    then have eq: "c # d # cs = ''${'' @ cs" by simp
    have "py_replace ''${'' (bslash # ''${'') (c # d # cs) =
            (bslash # ''${'') @ py_replace ''${'' (bslash # ''${'') cs"
      unfolding eq by (rule py_replace_prefix) simp
    with True "3.IH"(1) show ?thesis by (simp del: py_replace.simps)
  next
    case False
    then have "\<not> prefix ''${'' (c # d # cs)" by auto
    then have "py_replace ''${'' (bslash # ''${'') (c # d # cs) =
                 c # py_replace ''${'' (bslash # ''${'') (d # cs)"
      by (rule py_replace_Cons_skip [rotated]) simp
    with False "3.IH"(2) show ?thesis by (simp del: py_replace.simps)
  qed
qed

lemma escape_dollar_brace_Cons:
  "\<not> (x = CHR ''$'' \<and> y \<noteq> [] \<and> hd y = CHR ''{'') \<Longrightarrow>
   escape_dollar_brace (x # y) = x # escape_dollar_brace y"
  by (cases y) auto

lemma escape_dollar_brace_esc_one:
  "c \<noteq> CHR ''$'' \<or> y = [] \<or> hd y \<noteq> CHR ''{'' \<Longrightarrow>
   escape_dollar_brace ((if c = btick then [bslash, btick] else [c]) @ y) =
     (if c = btick then [bslash, btick] else [c]) @ escape_dollar_brace y"
  by (auto simp: escape_dollar_brace_Cons)

lemma js_escape_via_stages:
  "js_escape s =
     concat (map (\<lambda>c. if c = CHR 0x0D then [bslash, CHR ''r''] else [c]) (
       concat (map (\<lambda>c. if c = CHR 0x0A then [bslash, CHR ''n''] else [c]) (
         escape_dollar_brace (
           concat (map (\<lambda>c. if c = btick then [bslash, btick] else [c]) s))))))"
  by (simp only: js_escape_def py_replace_single_concat py_replace_dollar_brace)

lemma js_escape_direct_eq: "js_escape s = js_escape_direct s"
proof (induction s rule: js_escape_direct.induct)
  case 1
  then show ?case by (simp add: js_escape_via_stages)
next
  case (2 c)
  then show ?case by (simp add: js_escape_via_stages esc_one_def)
next
  case (3 c d cs)
  show ?case
  proof (cases "c = CHR ''$'' \<and> d = CHR ''{''")
    case True
    with "3.IH"(1) show ?thesis by (simp add: js_escape_via_stages)
  next
    case False
    let ?f1 = "\<lambda>c. if c = btick then [bslash, btick] else [c]"
    have hd1: "c \<noteq> CHR ''$'' \<or> concat (map ?f1 (d # cs)) = [] \<or>
               hd (concat (map ?f1 (d # cs))) \<noteq> CHR ''{''"
      using False by auto
    have "escape_dollar_brace (concat (map ?f1 (c # d # cs))) =
            ?f1 c @ escape_dollar_brace (concat (map ?f1 (d # cs)))"
      using escape_dollar_brace_esc_one [OF hd1] by simp
    with False "3.IH"(2) show ?thesis by (simp add: js_escape_via_stages esc_one_def)
  qed
qed

text \<open>The escape works piecewise unless a \<^verbatim>\<open>$\<close> and a \<^verbatim>\<open>{\<close> meet at the seam.\<close>

lemma js_escape_direct_append:
  "u = [] \<or> last u \<noteq> CHR ''$'' \<or> v = [] \<or> hd v \<noteq> CHR ''{'' \<Longrightarrow>
   js_escape_direct (u @ v) = js_escape_direct u @ js_escape_direct v"
proof (induction u rule: js_escape_direct.induct)
  case 1
  then show ?case by simp
next
  case (2 c)
  then show ?case by (cases v) auto
next
  case (3 c d cs)
  then show ?case by (cases cs) auto
qed

lemma js_escape_direct_plain:
  "CHR ''$'' \<notin> set m \<Longrightarrow> btick \<notin> set m \<Longrightarrow> CHR 0x0A \<notin> set m \<Longrightarrow> CHR 0x0D \<notin> set m \<Longrightarrow>
   js_escape_direct m = m"
  by (induction m rule: js_escape_direct.induct) (auto simp: esc_one_def)

lemma js_escape_append:
  "u = [] \<or> last u \<noteq> CHR ''$'' \<or> v = [] \<or> hd v \<noteq> CHR ''{'' \<Longrightarrow>
   js_escape (u @ v) = js_escape u @ js_escape v"
  unfolding js_escape_direct_eq by (rule js_escape_direct_append)

lemma occurrences_Nil [simp]: "occurrences p [] = 0"
  by (simp add: occurrences_def)

lemma occurrences_Cons:
  "occurrences p (c # cs) = (if prefix p (c # cs) then 1 else 0) + occurrences p cs"
proof -
  have "[0..<length (c # cs)] = 0 # map Suc [0..<length cs]"
    by (simp add: upt_conv_Cons map_Suc_upt del: upt_Suc)
  then show ?thesis by (simp add: occurrences_def filter_map comp_def)
qed

subsection \<open>The characters of the escaped text\<close>

lemma js_escape_chars:
  "x \<in> set (js_escape h) \<Longrightarrow>
   x \<in> set h \<or> x \<in> {bslash, btick, CHR ''$'', CHR ''{'', CHR ''n'', CHR ''r''}"
  by (auto simp: js_escape_def dest!: in_set_py_replace)

lemma js_escape_no_line_breaks:
  "CHR 0x0A \<notin> set (js_escape h)" "CHR 0x0D \<notin> set (js_escape h)"
proof -
  obtain x where x: "js_escape h =
      py_replace [CHR 0x0D] [bslash, CHR ''r''] (py_replace [CHR 0x0A] [bslash, CHR ''n''] x)"
    unfolding js_escape_def by blast
  have lf: "CHR 0x0A \<notin> set (py_replace [CHR 0x0A] [bslash, CHR ''n''] x)"
    by (rule py_replace_single_removes) (simp add: bslash_def)
  show "CHR 0x0A \<notin> set (js_escape h)"
  proof
    assume "CHR 0x0A \<in> set (js_escape h)"
    then have "CHR 0x0A \<in> set (py_replace [CHR 0x0A] [bslash, CHR ''n''] x) \<or>
               CHR 0x0A \<in> set [bslash, CHR ''r'']"
      unfolding x by (rule in_set_py_replace)
    with lf show False by (simp add: bslash_def)
  qed
  show "CHR 0x0D \<notin> set (js_escape h)"
    unfolding x by (rule py_replace_single_removes) (simp add: bslash_def)
qed

lemma copy_script_line_chars:
  "x \<in> set (copy_script_line h) \<Longrightarrow>
   x \<in> set h \<or> x \<in> set (''const text = ${;nr'' @ [bslash, btick])"
  by (auto simp: copy_script_line_def dest!: js_escape_chars)

subsection \<open>Reading back the escaped text\<close>

lemma js_tpl_esc_one:
  "c \<noteq> bslash \<Longrightarrow> c \<noteq> CHR ''$'' \<Longrightarrow> js_tpl (esc_one c @ r) = js_cons c (js_tpl r)"
  by (simp add: esc_one_def js_single_escape_def bslash_def btick_def)

lemma js_escape_direct_hd:
  "d \<noteq> CHR ''{'' \<Longrightarrow> js_escape_direct (d # cs) @ r \<noteq> [] \<and>
     hd (js_escape_direct (d # cs) @ r) \<noteq> CHR ''{''"
  by (cases cs) (auto simp: esc_one_def)

lemma js_tpl_escaped_prefix:
  "bslash \<notin> set s \<Longrightarrow> r = [] \<or> hd r \<noteq> CHR ''{'' \<Longrightarrow>
   js_tpl (js_escape_direct s @ r) = map_option (\<lambda>(v, rest). (s @ v, rest)) (js_tpl r)"
proof (induction s rule: js_escape_direct.induct)
  case 1
  then show ?case by (cases "js_tpl r") auto
next
  case (2 c)
  show ?case
  proof (cases "c = CHR ''$''")
    case True
    with "2.prems"(2) show ?thesis by (cases "js_tpl r") (auto simp: esc_one_def js_cons_def)
  next
    case False
    with "2.prems"(1) show ?thesis by (cases "js_tpl r") (auto simp: js_tpl_esc_one js_cons_def)
  qed
next
  case (3 c d cs)
  have c: "c \<noteq> bslash" and dcs: "bslash \<notin> set (d # cs)" and cs: "bslash \<notin> set cs"
    using "3.prems"(1) by auto
  show ?case
  proof (cases "c = CHR ''$'' \<and> d = CHR ''{''")
    case True
    with "3.IH"(1) [OF True cs "3.prems"(2)] show ?thesis
      by (cases "js_tpl r") (auto simp: js_cons_def js_single_escape_def)
  next
    case False
    note IH = "3.IH"(2) [OF False dcs "3.prems"(2)]
    show ?thesis
    proof (cases "c = CHR ''$''")
      case True
      with False have d: "d \<noteq> CHR ''{''" by simp
      then have "\<not> (c = CHR ''$'' \<and> js_escape_direct (d # cs) @ r \<noteq> [] \<and>
                   hd (js_escape_direct (d # cs) @ r) = CHR ''{'')"
        using js_escape_direct_hd by blast
      with True d IH show ?thesis by (cases "js_tpl r") (auto simp: esc_one_def js_cons_def)
    next
      case c': False
      with False IH c show ?thesis by (cases "js_tpl r") (auto simp: js_tpl_esc_one js_cons_def)
    qed
  qed
qed

lemma js_tpl_js_escape_direct:
  "bslash \<notin> set s \<Longrightarrow> js_tpl (js_escape_direct s @ btick # rest) = Some (s, rest)"
  using js_tpl_escaped_prefix [of s "btick # rest"] by simp

lemma copy_script_line_body:
  "drop 14 (copy_script_line h) = js_escape h @ [btick, CHR '';'']"
  by (simp add: copy_script_line_def)

subsection \<open>Properties of the clipboard script\<close>

text \<open>
  C9: round trip.  For a result without backslashes, the JavaScript engine reads the
  template literal of the script back as exactly the result, and the statement goes on
  with the \<^verbatim>\<open>;\<close> of the code.
\<close>

theorem copy_script_roundtrip:
  "bslash \<notin> set h \<Longrightarrow> js_tpl (drop 14 (copy_script_line h)) = Some (h, '';'')"
  using js_tpl_js_escape_direct [of h "'';''"]
  by (simp add: copy_script_line_body js_escape_direct_eq)

theorem copy_script_roundtrip_witness:
  "bslash \<notin> set ''a`b${c}'' \<and> js_tpl (drop 14 (copy_script_line ''a`b${c}'')) = Some (''a`b${c}'', '';'')"
proof -
  have h: "bslash \<notin> set ''a`b${c}''" by (simp add: bslash_def)
  show ?thesis using h copy_script_roundtrip [OF h] by blast
qed

text \<open>
  C6: a backslash is not escaped, so a result in which a backslash is followed by a
  backtick ends the literal early: for every result \<open>u\<close>\<^verbatim>\<open>\`\<close>\<open>w\<close> whose part
  \<open>u\<close> before that pair holds no backslash, the engine reads the literal as \<open>u\<close> and
  one backslash, and the source after the closing backtick is the escaped rest \<open>w\<close>,
  which runs as script code.
\<close>

theorem copy_script_backslash_injection:
  "bslash \<notin> set u \<Longrightarrow>
   js_tpl (drop 14 (copy_script_line (u @ bslash # btick # w))) =
     Some (u @ [bslash], js_escape w @ [btick, CHR '';''])"
proof -
  assume u: "bslash \<notin> set u"
  have e: "js_escape_direct (u @ [bslash, btick] @ w) =
             js_escape_direct u @ [bslash, bslash, btick] @ js_escape_direct w"
    using js_escape_direct_append [of u "[bslash, btick] @ w"]
      js_escape_direct_append [of "[bslash, btick]" w]
    by (simp add: esc_one_def)
  have "js_tpl (js_escape_direct u @ [bslash, bslash, btick] @ js_escape_direct w @ [btick, CHR '';'']) =
          Some (u @ [bslash], js_escape_direct w @ [btick, CHR '';''])"
    using js_tpl_escaped_prefix [OF u, of "[bslash, bslash, btick] @ js_escape_direct w @ [btick, CHR '';'']"]
    by (simp add: js_cons_def js_single_escape_def bslash_def btick_def)
  then show ?thesis using e by (simp add: copy_script_line_body js_escape_direct_eq)
qed

theorem copy_script_backslash_injection_witness:
  "bslash \<notin> set [] \<and>
   js_tpl (drop 14 (copy_script_line ([] @ bslash # btick # '';alert(1);//''))) =
     Some ([] @ [bslash], '';alert(1);//'' @ [btick, CHR '';''])"
proof -
  have u: "bslash \<notin> set []" by simp
  have w: "js_escape '';alert(1);//'' = '';alert(1);//''"
    by (simp add: js_escape_def btick_def bslash_def)
  show ?thesis using u copy_script_backslash_injection [OF u, of "'';alert(1);//''"] w by simp
qed

text \<open>
  C16: text without backtick, dollar sign, line feed or carriage return is spliced into the
  script unchanged; in particular an HTML end tag \<^verbatim>\<open></script>\<close> in the result reaches
  the page's \<^verbatim>\<open><script>\<close> element as it is and ends it.
\<close>

theorem js_escape_plain_identity:
  "btick \<notin> set s \<Longrightarrow> CHR ''$'' \<notin> set s \<Longrightarrow> CHR 0x0A \<notin> set s \<Longrightarrow> CHR 0x0D \<notin> set s \<Longrightarrow>
   js_escape s = s"
proof -
  assume a: "btick \<notin> set s" "CHR ''$'' \<notin> set s" "CHR 0x0A \<notin> set s" "CHR 0x0D \<notin> set s"
  have "\<not> sublist ''${'' s" using a(2) by (auto dest: set_mono_sublist)
  moreover have "\<not> sublist [c] s" if "c \<notin> set s" for c
    using that by (auto dest: set_mono_sublist)
  ultimately show ?thesis
    using a by (simp add: js_escape_def py_replace_absent del: py_replace.simps)
qed

theorem js_escape_plain_identity_witness:
  "btick \<notin> set ''</script><b>'' \<and> CHR ''$'' \<notin> set ''</script><b>'' \<and>
   CHR 0x0A \<notin> set ''</script><b>'' \<and> CHR 0x0D \<notin> set ''</script><b>'' \<and>
   js_escape ''</script><b>'' = ''</script><b>''"
proof -
  have h: "btick \<notin> set ''</script><b>''" "CHR ''$'' \<notin> set ''</script><b>''"
    "CHR 0x0A \<notin> set ''</script><b>''" "CHR 0x0D \<notin> set ''</script><b>''"
    by (simp_all add: btick_def)
  show ?thesis using h js_escape_plain_identity [OF h] by blast
qed

text \<open>
  C24: the exact size of the escaped text: each of the four replaces of line 193 adds one
  backslash for each occurrence of what it replaces, so the escaped text is the result
  plus one character per backtick, per \<^verbatim>\<open>${\<close>, per line feed and per carriage
  return, and nothing else is added.
\<close>

theorem js_escape_length:
  "length (js_escape h) =
     length h + count_list h btick + occurrences ''${'' h + count_list h (CHR 0x0A) +
     count_list h (CHR 0x0D)"
  unfolding js_escape_direct_eq
proof (induction h rule: js_escape_direct.induct)
  case 1
  then show ?case by simp
next
  case (2 c)
  then show ?case by (simp add: esc_one_def occurrences_Cons)
next
  case (3 c d cs)
  then show ?case by (auto simp: esc_one_def occurrences_Cons)
qed

end
