(* ===== verification/Html_Tokenizer.thy ===== *)
theory Html_Tokenizer
  imports "HOL-Library.While_Combinator"
begin

text \<open>
  The part of a browser that decides which text of an HTML document is the text of a
  script element (WHATWG HTML, sections 13.2.3.5 and 13.2.5).  A document is a list of
  Unicode code points.  Newlines are normalised first; the tokenizer's data and tag
  states then read markup up to the first start tag named \<^verbatim>\<open>script\<close>, after which
  the tree builder switches the tokenizer to the script data state; the eighteen script
  data states decide where the element's text ends.  The data and tag states are
  modelled to the extent of tag names: character references, comments, doctypes and the
  other raw text elements are outside the model (the run answers \<open>None\<close>).  The script
  data loop is written with \<open>while_option\<close>; \<open>sd_run\<close> is the same loop by
  structural recursion.  The code points are \<open>60\<close> (\<^verbatim>\<open><\<close>), \<open>47\<close> (\<^verbatim>\<open>/\<close>),
  \<open>33\<close> (\<^verbatim>\<open>!\<close>), \<open>45\<close> (\<^verbatim>\<open>-\<close>), \<open>62\<close> (\<^verbatim>\<open>>\<close>), \<open>0\<close> (NUL, replaced by
  U+FFFD), and the ASCII letters.
\<close>

subsection \<open>Input stream preprocessing\<close>

text \<open>Every CR LF pair and every lone CR becomes LF before tokenization.\<close>

fun norm_newlines :: "nat list \<Rightarrow> nat list" where
  "norm_newlines [] = []"
| "norm_newlines [c] = [if c = 13 then 10 else c]"
| "norm_newlines (c # d # cs) =
     (if c = 13 \<and> d = 10 then 10 # norm_newlines cs
      else (if c = 13 then 10 else c) # norm_newlines (d # cs))"

subsection \<open>The script data states\<close>

definition ascii_upper :: "nat \<Rightarrow> bool" where
  "ascii_upper c \<longleftrightarrow> 65 \<le> c \<and> c \<le> 90"

definition ascii_alpha :: "nat \<Rightarrow> bool" where
  "ascii_alpha c \<longleftrightarrow> ascii_upper c \<or> (97 \<le> c \<and> c \<le> 122)"

definition ascii_lower :: "nat \<Rightarrow> nat" where
  "ascii_lower c = (if ascii_upper c then c + 32 else c)"

text \<open>Tab, LF, FF, space, solidus and \<^verbatim>\<open>>\<close> end a tag name.\<close>

definition tag_delim :: "nat \<Rightarrow> bool" where
  "tag_delim c \<longleftrightarrow> c = 9 \<or> c = 10 \<or> c = 12 \<or> c = 32 \<or> c = 47 \<or> c = 62"

definition script_name :: "nat list" where
  "script_name = map of_char ''script''"

text \<open>An end tag is appropriate when its name, ASCII-lowercased, is the start tag's.\<close>

definition appropriate_end :: "nat list \<Rightarrow> bool" where
  "appropriate_end buf \<longleftrightarrow> map ascii_lower buf = script_name"

datatype sd_state =
    SData | SLess | SEndOpen | SEndName
  | SEscStart | SEscStartDash | SEsc | SEscDash | SEscDashDash
  | SEscLess | SEscEndOpen | SEscEndName
  | SDblStart | SDbl | SDblDash | SDblDashDash | SDblLess | SDblEnd

text \<open>
  The outcome of one input character: the next state, the temporary buffer and the
  characters emitted; or \<open>Left\<close>, an appropriate end tag was read and the tokenizer
  leaves the script data states.
\<close>

datatype sd_out = Go sd_state "nat list" "nat list" | Left

definition sd_emit :: "nat list \<Rightarrow> sd_out \<Rightarrow> sd_out" where
  "sd_emit xs r = (case r of Go s b e \<Rightarrow> Go s b (xs @ e) | Left \<Rightarrow> Left)"

text \<open>"Reconsume in state s" goes down this rank, which bounds the reconsume chain.\<close>

fun sd_rank :: "sd_state \<Rightarrow> nat" where
  "sd_rank SEndOpen = 2"
| "sd_rank SEscEndOpen = 2"
| "sd_rank SEscLess = 2"
| "sd_rank SData = 0"
| "sd_rank SEsc = 0"
| "sd_rank SDbl = 0"
| "sd_rank _ = 1"

text \<open>One input character in each state (sections 13.2.5.4 and 13.2.5.15--31).\<close>

function sd_char :: "sd_state \<Rightarrow> nat list \<Rightarrow> nat \<Rightarrow> sd_out" where
  "sd_char SData b c =
     (if c = 60 then Go SLess b []
      else if c = 0 then Go SData b [0xFFFD]
      else Go SData b [c])"
| "sd_char SLess b c =
     (if c = 47 then Go SEndOpen [] []
      else if c = 33 then Go SEscStart b [60, 33]
      else sd_emit [60] (sd_char SData b c))"
| "sd_char SEndOpen b c =
     (if ascii_alpha c then sd_char SEndName b c
      else sd_emit [60, 47] (sd_char SData b c))"
| "sd_char SEndName b c =
     (if tag_delim c \<and> appropriate_end b then Left
      else if ascii_alpha c then Go SEndName (b @ [c]) []
      else sd_emit ([60, 47] @ b) (sd_char SData b c))"
| "sd_char SEscStart b c =
     (if c = 45 then Go SEscStartDash b [45] else sd_char SData b c)"
| "sd_char SEscStartDash b c =
     (if c = 45 then Go SEscDashDash b [45] else sd_char SData b c)"
| "sd_char SEsc b c =
     (if c = 45 then Go SEscDash b [45]
      else if c = 60 then Go SEscLess b []
      else if c = 0 then Go SEsc b [0xFFFD]
      else Go SEsc b [c])"
| "sd_char SEscDash b c =
     (if c = 45 then Go SEscDashDash b [45]
      else if c = 60 then Go SEscLess b []
      else if c = 0 then Go SEsc b [0xFFFD]
      else Go SEsc b [c])"
| "sd_char SEscDashDash b c =
     (if c = 45 then Go SEscDashDash b [45]
      else if c = 60 then Go SEscLess b []
      else if c = 62 then Go SData b [62]
      else if c = 0 then Go SEsc b [0xFFFD]
      else Go SEsc b [c])"
| "sd_char SEscLess b c =
     (if c = 47 then Go SEscEndOpen [] []
      else if ascii_alpha c then sd_emit [60] (sd_char SDblStart [] c)
      else sd_emit [60] (sd_char SEsc b c))"
| "sd_char SEscEndOpen b c =
     (if ascii_alpha c then sd_char SEscEndName b c
      else sd_emit [60, 47] (sd_char SEsc b c))"
| "sd_char SEscEndName b c =
     (if tag_delim c \<and> appropriate_end b then Left
      else if ascii_alpha c then Go SEscEndName (b @ [c]) []
      else sd_emit ([60, 47] @ b) (sd_char SEsc b c))"
| "sd_char SDblStart b c =
     (if tag_delim c then Go (if b = script_name then SDbl else SEsc) b [c]
      else if ascii_alpha c then Go SDblStart (b @ [ascii_lower c]) [c]
      else sd_char SEsc b c)"
| "sd_char SDbl b c =
     (if c = 45 then Go SDblDash b [45]
      else if c = 60 then Go SDblLess b [60]
      else if c = 0 then Go SDbl b [0xFFFD]
      else Go SDbl b [c])"
| "sd_char SDblDash b c =
     (if c = 45 then Go SDblDashDash b [45]
      else if c = 60 then Go SDblLess b [60]
      else if c = 0 then Go SDbl b [0xFFFD]
      else Go SDbl b [c])"
| "sd_char SDblDashDash b c =
     (if c = 45 then Go SDblDashDash b [45]
      else if c = 60 then Go SDblLess b [60]
      else if c = 62 then Go SEsc b [62]
      else if c = 0 then Go SDbl b [0xFFFD]
      else Go SDbl b [c])"
| "sd_char SDblLess b c =
     (if c = 47 then Go SDblEnd [] [47] else sd_char SDbl b c)"
| "sd_char SDblEnd b c =
     (if tag_delim c then Go (if b = script_name then SEsc else SDbl) b [c]
      else if ascii_alpha c then Go SDblEnd (b @ [ascii_lower c]) [c]
      else sd_char SDbl b c)"
  by pat_completeness auto
termination
  by (relation "measure (\<lambda>(s, b, c). sd_rank s)") simp_all

text \<open>At the end of the input, the characters held back by the state are emitted.\<close>

fun sd_eof :: "sd_state \<Rightarrow> nat list \<Rightarrow> nat list" where
  "sd_eof SLess b = [60]"
| "sd_eof SEndOpen b = [60, 47]"
| "sd_eof SEndName b = [60, 47] @ b"
| "sd_eof SEscLess b = [60]"
| "sd_eof SEscEndOpen b = [60, 47]"
| "sd_eof SEscEndName b = [60, 47] @ b"
| "sd_eof _ b = []"

text \<open>
  The text of the script element: \<open>Closed text rest\<close> when an end tag ended it, with
  the input after the end tag's delimiter; \<open>Unclosed text\<close> when the input ran out in
  the script data states (the element is then never executed).
\<close>

datatype script_result = Closed "nat list" "nat list" | Unclosed "nat list"

text \<open>The loop state: the current state (\<open>None\<close> once left), buffer, output, input.\<close>

type_synonym sd_conf = "sd_state option \<times> nat list \<times> nat list \<times> nat list"

definition sd_guard :: "sd_conf \<Rightarrow> bool" where
  "sd_guard conf = (case conf of (Some s, b, out, c # cs) \<Rightarrow> True | _ \<Rightarrow> False)"

definition sd_body :: "sd_conf \<Rightarrow> sd_conf" where
  "sd_body conf =
     (case conf of
        (Some s, b, out, c # cs) \<Rightarrow>
          (case sd_char s b c of
             Go s' b' e \<Rightarrow> (Some s', b', out @ e, cs)
           | Left \<Rightarrow> (None, b, out, cs))
      | _ \<Rightarrow> conf)"

definition sd_finish :: "sd_conf \<Rightarrow> script_result" where
  "sd_finish conf =
     (case conf of
        (None, b, out, rest) \<Rightarrow> Closed out rest
      | (Some s, b, out, rest) \<Rightarrow> Unclosed (out @ sd_eof s b))"

definition script_text :: "nat list \<Rightarrow> script_result option" where
  "script_text inp = map_option sd_finish (while_option sd_guard sd_body (Some SData, [], [], inp))"

text \<open>The same loop by structural recursion on the input.\<close>

fun sd_run :: "sd_state \<Rightarrow> nat list \<Rightarrow> nat list \<Rightarrow> nat list \<Rightarrow> script_result" where
  "sd_run s b out [] = Unclosed (out @ sd_eof s b)"
| "sd_run s b out (c # cs) =
     (case sd_char s b c of
        Go s' b' e \<Rightarrow> sd_run s' b' (out @ e) cs
      | Left \<Rightarrow> Closed out cs)"

subsection \<open>The data and tag states\<close>

text \<open>
  Sections 13.2.5.1 and 13.2.5.6--13.2.5.40, to the extent of tag names.  Where a state
  reconsumes the character in a state that only passes it on, the two steps are written
  as one (the before and after attribute name states for \<^verbatim>\<open>/\<close> and \<^verbatim>\<open>>\<close>).
\<close>

datatype ht_state =
    HData | HTagOpen | HEndTagOpen | HTagName
  | HBeforeAttrName | HAttrName | HAfterAttrName
  | HBeforeAttrValue | HAttrValueDQ | HAttrValueSQ | HAttrValueUnq
  | HAfterAttrValueQuoted | HSelfClosing

text \<open>
  The outcome of one character: the next state with the current tag (start tag or not,
  and its lowercased name so far); a complete tag; or a construct outside the model
  (character references, comments, doctypes, processing instructions).
\<close>

datatype ht_out = HNext ht_state bool "nat list" | HTag bool "nat list" | HOutside

definition tag_space :: "nat \<Rightarrow> bool" where
  "tag_space c \<longleftrightarrow> c = 9 \<or> c = 10 \<or> c = 12 \<or> c = 32"

fun ht_rank :: "ht_state \<Rightarrow> nat" where
  "ht_rank HTagOpen = 2"
| "ht_rank HEndTagOpen = 2"
| "ht_rank HAfterAttrValueQuoted = 2"
| "ht_rank HSelfClosing = 2"
| "ht_rank HBeforeAttrValue = 1"
| "ht_rank HBeforeAttrName = 1"
| "ht_rank _ = 0"

function ht_char :: "ht_state \<Rightarrow> bool \<Rightarrow> nat list \<Rightarrow> nat \<Rightarrow> ht_out" where
  "ht_char HData st n c =
     (if c = 38 then HOutside else if c = 60 then HNext HTagOpen st n else HNext HData st n)"
| "ht_char HTagOpen st n c =
     (if c = 33 \<or> c = 63 then HOutside
      else if c = 47 then HNext HEndTagOpen st n
      else if ascii_alpha c then ht_char HTagName True [] c
      else ht_char HData st n c)"
| "ht_char HEndTagOpen st n c =
     (if ascii_alpha c then ht_char HTagName False [] c
      else if c = 62 then HNext HData st n
      else HOutside)"
| "ht_char HTagName st n c =
     (if tag_space c then HNext HBeforeAttrName st n
      else if c = 47 then HNext HSelfClosing st n
      else if c = 62 then HTag st n
      else HNext HTagName st (n @ [if c = 0 then 0xFFFD else ascii_lower c]))"
| "ht_char HBeforeAttrName st n c =
     (if tag_space c then HNext HBeforeAttrName st n
      else if c = 47 then HNext HSelfClosing st n
      else if c = 62 then HTag st n
      else HNext HAttrName st n)"
| "ht_char HAttrName st n c =
     (if tag_space c then HNext HAfterAttrName st n
      else if c = 47 then HNext HSelfClosing st n
      else if c = 62 then HTag st n
      else if c = 61 then HNext HBeforeAttrValue st n
      else HNext HAttrName st n)"
| "ht_char HAfterAttrName st n c =
     (if tag_space c then HNext HAfterAttrName st n
      else if c = 47 then HNext HSelfClosing st n
      else if c = 61 then HNext HBeforeAttrValue st n
      else if c = 62 then HTag st n
      else HNext HAttrName st n)"
| "ht_char HBeforeAttrValue st n c =
     (if tag_space c then HNext HBeforeAttrValue st n
      else if c = 34 then HNext HAttrValueDQ st n
      else if c = 39 then HNext HAttrValueSQ st n
      else if c = 62 then HTag st n
      else ht_char HAttrValueUnq st n c)"
| "ht_char HAttrValueDQ st n c =
     (if c = 34 then HNext HAfterAttrValueQuoted st n
      else if c = 38 then HOutside else HNext HAttrValueDQ st n)"
| "ht_char HAttrValueSQ st n c =
     (if c = 39 then HNext HAfterAttrValueQuoted st n
      else if c = 38 then HOutside else HNext HAttrValueSQ st n)"
| "ht_char HAttrValueUnq st n c =
     (if tag_space c then HNext HBeforeAttrName st n
      else if c = 38 then HOutside
      else if c = 62 then HTag st n
      else HNext HAttrValueUnq st n)"
| "ht_char HAfterAttrValueQuoted st n c =
     (if tag_space c then HNext HBeforeAttrName st n
      else if c = 47 then HNext HSelfClosing st n
      else if c = 62 then HTag st n
      else ht_char HBeforeAttrName st n c)"
| "ht_char HSelfClosing st n c =
     (if c = 62 then HTag st n else ht_char HBeforeAttrName st n c)"
  by pat_completeness auto
termination
  by (relation "measure (\<lambda>(s, st, n, c). ht_rank s)") simp_all

text \<open>
  Start tags of the other elements whose text the tokenizer reads in a special state
  (raw text, RCDATA, plain text): outside the model.
\<close>

definition other_text_elements :: "nat list list" where
  "other_text_elements =
     map (map of_char) [''style'', ''xmp'', ''iframe'', ''noembed'', ''noframes'', ''noscript'',
                        ''textarea'', ''title'', ''plaintext'']"

text \<open>
  The markup up to the first start tag named \<^verbatim>\<open>script\<close>: the input after that tag, or
  \<open>None\<close> when the input ends first or a construct outside the model comes first.
\<close>

fun ht_run :: "ht_state \<Rightarrow> bool \<Rightarrow> nat list \<Rightarrow> nat list \<Rightarrow> nat list option" where
  "ht_run s st n [] = None"
| "ht_run s st n (c # cs) =
     (case ht_char s st n c of
        HNext s' st' n' \<Rightarrow> ht_run s' st' n' cs
      | HTag st' n' \<Rightarrow>
          (if st' \<and> n' = script_name then Some cs
           else if st' \<and> n' \<in> set other_text_elements then None
           else ht_run HData False [] cs)
      | HOutside \<Rightarrow> None)"

text \<open>The text of the first script element of a document.\<close>

definition page_script :: "nat list \<Rightarrow> script_result option" where
  "page_script doc =
     (case ht_run HData False [] (norm_newlines doc) of
        Some rest \<Rightarrow> script_text rest
      | None \<Rightarrow> None)"

subsection \<open>Lemmas: the loop\<close>

lemma sd_emit_simps [simp]:
  "sd_emit xs (Go s b e) = Go s b (xs @ e)" "sd_emit xs Left = Left"
  by (simp_all add: sd_emit_def)

lemma while_sd_run:
  "map_option sd_finish (while_option sd_guard sd_body (Some s, b, out, inp)) =
     Some (sd_run s b out inp)"
proof (induction inp arbitrary: s b out)
  case Nil
  then show ?case
    by (simp add: while_option_unfold [of _ _ "(Some s, b, out, [])"] sd_guard_def sd_finish_def)
next
  case (Cons c cs)
  show ?case
  proof (cases "sd_char s b c")
    case (Go s' b' e)
    with Cons.IH show ?thesis
      by (simp add: while_option_unfold [of _ _ "(Some s, b, out, c # cs)"] sd_guard_def sd_body_def)
  next
    case Left
    then show ?thesis
      by (simp add: while_option_unfold [of _ _ "(Some s, b, out, c # cs)"]
          while_option_unfold [of _ _ "(None, b, out, cs)"] sd_guard_def sd_body_def sd_finish_def)
  qed
qed

lemma script_text_run: "script_text inp = Some (sd_run SData [] [] inp)"
  by (simp add: script_text_def while_sd_run)

lemma sd_run_plain:
  "\<forall>c\<in>set xs. sd_char s b c = Go s b [c] \<Longrightarrow> sd_run s b out (xs @ ys) = sd_run s b (out @ xs) ys"
  by (induction xs arbitrary: out) simp_all

lemma sd_char_plain:
  "c \<noteq> 60 \<Longrightarrow> c \<noteq> 0 \<Longrightarrow> sd_char SData b c = Go SData b [c]"
  "c \<noteq> 60 \<Longrightarrow> c \<noteq> 45 \<Longrightarrow> c \<noteq> 0 \<Longrightarrow> sd_char SEsc b c = Go SEsc b [c]"
  "c \<noteq> 60 \<Longrightarrow> c \<noteq> 45 \<Longrightarrow> c \<noteq> 0 \<Longrightarrow> sd_char SDbl b c = Go SDbl b [c]"
  by simp_all

lemma norm_newlines_id: "13 \<notin> set xs \<Longrightarrow> norm_newlines xs = xs"
  by (induction xs rule: norm_newlines.induct) auto

lemma norm_newlines_append: "13 \<notin> set xs \<Longrightarrow> norm_newlines (xs @ ys) = xs @ norm_newlines ys"
proof (induction xs)
  case (Cons c xs)
  then show ?case by (cases "xs @ ys") auto
qed simp

lemmas tag_char_defs =
  ascii_alpha_def ascii_upper_def ascii_lower_def tag_delim_def appropriate_end_def script_name_def

lemma sd_run_end_tag:
  "sd_run SData b out (map of_char ''</script>'' @ rest) = Closed out rest"
  by (simp add: tag_char_defs)

lemma sd_run_dbl_end_tag:
  "sd_run SDbl script_name out (map of_char ''</script>'' @ rest) =
     sd_run SEsc script_name (out @ map of_char ''</script>'') rest"
  by (simp add: tag_char_defs)

lemma sd_run_comment_script:
  "sd_run SData b out (map of_char ''<!--<script>'' @ rest) =
     sd_run SDbl script_name (out @ map of_char ''<!--<script>'') rest"
  by (simp add: tag_char_defs)

end
