(* ===== verification/Copy_Html.thy ===== *)
theory Copy_Html
  imports Clipboard Html_Tokenizer
begin

text \<open>
  The copy component as the browser receives it (\<open>src/app.py\<close>, lines 172--210): the
  f-string \<^verbatim>\<open>copy_html\<close> handed to \<^verbatim>\<open>st.components.v1.html\<close>, as a list of Unicode
  code points (\<open>nat list\<close>), since the markup holds two emoji; Latin-1 text enters
  through \<open>map of_char\<close>.  \<open>browser_script\<close> is the text of the document's script
  element as the tokenizer of \<open>Html_Tokenizer\<close> finds it: the markup before
  \<^verbatim>\<open><script>\<close> is read by the data and tag states (\<open>markup_reaches_script\<close>), the
  rest by the script data states.  The lemmas show where the element ends for clean
  results and for results that contain markup.
\<close>

subsection \<open>The document (lines 172--210)\<close>

text \<open>The button's content between \<^verbatim>\<open><button ...>\<close> and \<^verbatim>\<open></button>\<close> (lines 186--188).\<close>

definition btn_icon_html :: "nat list" where
  "btn_icon_html =
     map of_char ''\<newline>                        '' @ [0x1F4CB] @ map of_char ''\<newline>                    ''"

text \<open>The markup before the script element: lines 172--191 up to \<^verbatim>\<open><script>\<close>.\<close>

definition copy_markup :: "nat list" where
  \<open>copy_markup =
   (map of_char ''\<newline>'' @
    map of_char ''                <div style="position: relative; margin-top: -40px; margin-bottom: 20px; text-align: right; margin-right: 10px;">\<newline>'' @
    map of_char ''                    <button onclick="copyToClipboard()" style="\<newline>'' @
    map of_char ''                        background: transparent;\<newline>'' @
    map of_char ''                        border: none;\<newline>'' @
    map of_char ''                        cursor: pointer;\<newline>'' @
    map of_char ''                        font-size: 18px;\<newline>'' @
    map of_char ''                        color: #666;\<newline>'' @
    map of_char ''                        padding: 5px;\<newline>'' @
    map of_char ''                        border-radius: 3px;\<newline>'' @
    map of_char ''                        transition: color 0.2s;\<newline>'' @
    map of_char ''                    " \<newline>'' @
    map of_char ''                    onmouseover="this.style.color='' @ [39] @ map of_char ''#333'' @ [39] @ map of_char ''"\<newline>'' @
    map of_char ''                    onmouseout="this.style.color='' @ [39] @ map of_char ''#666'' @ [39] @ map of_char ''"\<newline>'' @
    map of_char ''                    title="Copy to clipboard">'' @ btn_icon_html @
    map of_char ''</button>\<newline>'' @
    map of_char ''                </div>\<newline>'' @
    map of_char ''                \<newline>'' @
    map of_char ''                '')\<close>

text \<open>The script from after \<^verbatim>\<open><script>\<close> up to the statement of line 193.\<close>

definition copy_fn_head :: "nat list" where
  \<open>copy_fn_head =
   (map of_char ''\<newline>'' @
    map of_char ''                function copyToClipboard() {\<newline>'' @
    map of_char ''                    '')\<close>

text \<open>The script after the statement of line 193, up to \<^verbatim>\<open></script>\<close> (lines 193--208).\<close>

definition copy_fn_tail :: "nat list" where
  \<open>copy_fn_tail =
   (map of_char ''\<newline>'' @
    map of_char ''                    navigator.clipboard.writeText(text).then(function() {\<newline>'' @
    map of_char ''                        // Show success message\<newline>'' @
    map of_char ''                        const button = event.target;\<newline>'' @
    map of_char ''                        const originalText = button.innerHTML;\<newline>'' @
    map of_char ''                        button.innerHTML = '' @ [39] @ [0x2705] @ [39] @ map of_char '';\<newline>'' @
    map of_char ''                        button.style.color = '' @ [39] @ map of_char ''#28a745'' @ [39] @ map of_char '';\<newline>'' @
    map of_char ''                        setTimeout(function() {\<newline>'' @
    map of_char ''                            button.innerHTML = originalText;\<newline>'' @
    map of_char ''                            button.style.color = '' @ [39] @ map of_char ''#666'' @ [39] @ map of_char '';\<newline>'' @
    map of_char ''                        }, 1500);\<newline>'' @
    map of_char ''                    }).catch(function(err) {\<newline>'' @
    map of_char ''                        alert("Failed to copy text. Please copy manually.");\<newline>'' @
    map of_char ''                    });\<newline>'' @
    map of_char ''                }\<newline>'' @
    map of_char ''                '')\<close>

text \<open>The text after \<^verbatim>\<open></script>\<close>: the end of line 208 and the indentation of line 209.\<close>

definition copy_trailer :: "nat list" where
  \<open>copy_trailer =
   (map of_char ''\<newline>'' @
    map of_char ''                '')\<close>

text \<open>
  The f-string, with \<^verbatim>\<open>{{\<close> and \<^verbatim>\<open>}}\<close> read as braces and the interpolation of
  line 193 as the statement \<open>copy_script_line\<close> of \<open>Clipboard\<close>.
\<close>

definition script_input :: "string \<Rightarrow> nat list" where
  "script_input h =
     copy_fn_head @ map of_char (copy_script_line h) @ copy_fn_tail @ map of_char ''</script>'' @
     copy_trailer"

definition copy_html :: "string \<Rightarrow> nat list" where
  "copy_html h = copy_markup @ map of_char ''<script>'' @ script_input h"

text \<open>The script the browser runs for a result: the script element of the document.\<close>

definition browser_script :: "string \<Rightarrow> script_result option" where
  "browser_script h = page_script (copy_html h)"

subsection \<open>Lemmas: the characters of the document\<close>

text \<open>The markup before the script element reaches the script start tag.\<close>

lemma markup_reaches_script:
  "ht_run HData False [] (copy_markup @ map of_char ''<script>'' @ rest) = Some rest"
  by (simp add: copy_markup_def btn_icon_html_def ascii_alpha_def ascii_upper_def ascii_lower_def
                tag_space_def script_name_def other_text_elements_def)

lemma markup_no_cr: "13 \<notin> set (copy_markup @ map of_char ''<script>'')"
  by (simp add: copy_markup_def btn_icon_html_def)

lemma browser_script_eq: "browser_script h = script_text (norm_newlines (script_input h))"
proof -
  have "norm_newlines (copy_html h) =
          copy_markup @ map of_char ''<script>'' @ norm_newlines (script_input h)"
    unfolding copy_html_def append_assoc [symmetric] norm_newlines_append [OF markup_no_cr]
    by (rule refl)
  then show ?thesis
    by (simp only: browser_script_def page_script_def markup_reaches_script option.case)
qed


lemma copy_parts_plain:
  "\<forall>c\<in>set copy_fn_head. c \<noteq> 60 \<and> c \<noteq> 45 \<and> c \<noteq> 0 \<and> c \<noteq> 13"
  "\<forall>c\<in>set copy_fn_tail. c \<noteq> 60 \<and> c \<noteq> 45 \<and> c \<noteq> 0 \<and> c \<noteq> 13"
  "\<forall>c\<in>set copy_trailer. c \<noteq> 60 \<and> c \<noteq> 45 \<and> c \<noteq> 0 \<and> c \<noteq> 13"
  by (simp_all add: copy_fn_head_def copy_fn_tail_def copy_trailer_def)

lemma of_char_nat_neq:
  "x \<noteq> d \<Longrightarrow> of_char d = n \<Longrightarrow> (of_char x :: nat) \<noteq> n"
  using of_char_eq_iff [of x d] by auto

lemma copy_script_line_no_cr: "CHR 0x0D \<notin> set (copy_script_line h)"
  by (simp add: copy_script_line_def js_escape_no_line_breaks btick_def)

lemma copy_script_line_plain:
  assumes "CHR ''<'' \<notin> set h" "CHR 0x00 \<notin> set h"
  shows "\<forall>c\<in>set (map of_char (copy_script_line h) :: nat list). c \<noteq> 60 \<and> c \<noteq> 0 \<and> c \<noteq> 13"
proof
  fix n :: nat
  assume "n \<in> set (map of_char (copy_script_line h))"
  then obtain x where x: "x \<in> set (copy_script_line h)" and n: "n = of_char x" by auto
  have lt: "x \<noteq> CHR ''<''" and nul: "x \<noteq> CHR 0x00"
    using copy_script_line_chars [OF x] assms by (auto simp: bslash_def btick_def)
  have cr: "x \<noteq> CHR 0x0D" using x copy_script_line_no_cr by blast
  have "(of_char x :: nat) \<noteq> 60" by (rule of_char_nat_neq [OF lt]) simp
  moreover have "(of_char x :: nat) \<noteq> 0" by (rule of_char_nat_neq [OF nul]) simp
  moreover have "(of_char x :: nat) \<noteq> 13" by (rule of_char_nat_neq [OF cr]) simp
  ultimately show "n \<noteq> 60 \<and> n \<noteq> 0 \<and> n \<noteq> 13" by (simp add: n)
qed

lemma script_input_splice:
  "script_input h =
     copy_fn_head @ map of_char ''const text = `'' @ map of_char (js_escape h) @ map of_char ''`;'' @
     copy_fn_tail @ map of_char ''</script>'' @ copy_trailer"
  by (simp add: script_input_def copy_script_line_def btick_def)

text \<open>A character of the result that the escape does not produce is absent after it.\<close>

lemma js_escape_code_avoids:
  assumes "d \<notin> set h" and "d \<notin> {bslash, btick, CHR ''$'', CHR ''{'', CHR ''n'', CHR ''r''}"
  shows "(of_char d :: nat) \<notin> set (map of_char (js_escape h))"
proof
  assume "(of_char d :: nat) \<in> set (map of_char (js_escape h))"
  then obtain x where x: "x \<in> set (js_escape h)" and eq: "(of_char x :: nat) = of_char d" by auto
  from eq have "x = d" by (simp add: of_char_eq_iff)
  with x assms show False by (auto dest: js_escape_chars)
qed

lemma js_escape_plain_codes:
  "CHR ''<'' \<notin> set h \<Longrightarrow> CHR 0x00 \<notin> set h \<Longrightarrow>
   \<forall>c\<in>set (map of_char (js_escape h) :: nat list). c \<noteq> 60 \<and> c \<noteq> 0"
  using js_escape_code_avoids [of "CHR ''<''" h] js_escape_code_avoids [of "CHR 0x00" h]
  by (auto simp: bslash_def btick_def)

lemma js_escape_no_dash_code:
  "CHR ''-'' \<notin> set h \<Longrightarrow> (45::nat) \<notin> set (map of_char (js_escape h))"
  using js_escape_code_avoids [of "CHR ''-''" h] by (simp add: bslash_def btick_def)

lemma script_input_no_cr: "13 \<notin> set (script_input h)"
proof -
  have "(13::nat) \<notin> set (map of_char (copy_script_line h))"
  proof
    assume "(13::nat) \<in> set (map of_char (copy_script_line h))"
    then obtain x where x: "x \<in> set (copy_script_line h)" and n: "(of_char x :: nat) = 13" by auto
    have "x \<noteq> CHR 0x0D" using x copy_script_line_no_cr by blast
    then have "(of_char x :: nat) \<noteq> 13" by (rule of_char_nat_neq) simp
    with n show False by simp
  qed
  then show ?thesis using copy_parts_plain by (auto simp: script_input_def)
qed

text \<open>The escape leaves the markup of a result in place around its own pieces.\<close>

lemma js_escape_around:
  "CHR ''$'' \<notin> set m \<Longrightarrow> CHR ''{'' \<notin> set m \<Longrightarrow> btick \<notin> set m \<Longrightarrow>
   CHR 0x0A \<notin> set m \<Longrightarrow> CHR 0x0D \<notin> set m \<Longrightarrow> m \<noteq> [] \<Longrightarrow>
   js_escape (u @ m @ w) = js_escape u @ m @ js_escape w"
proof -
  assume a: "CHR ''$'' \<notin> set m" "CHR ''{'' \<notin> set m" "btick \<notin> set m"
    "CHR 0x0A \<notin> set m" "CHR 0x0D \<notin> set m" "m \<noteq> []"
  have m: "js_escape m = m"
    using a by (simp add: js_escape_direct_eq js_escape_direct_plain)
  have l: "last m \<noteq> CHR ''$''" and h: "hd m \<noteq> CHR ''{''"
    using a(1,2) last_in_set [OF a(6)] hd_in_set [OF a(6)] by auto
  have "js_escape (m @ w) = js_escape m @ js_escape w"
    using l by (intro js_escape_append) simp
  moreover have "js_escape (u @ m @ w) = js_escape u @ js_escape (m @ w)"
    using h a(6) by (intro js_escape_append) simp
  ultimately show ?thesis using m by simp
qed

text \<open>
  The shape of every closed run: a prefix without \<^verbatim>\<open><\<close> and NUL is script text, and
  the first \<^verbatim>\<open></script>\<close> after it ends the element.
\<close>

lemma browser_script_closes:
  assumes "script_input h = xs @ map of_char ''</script>'' @ rest"
    and "\<forall>c\<in>set xs. c \<noteq> 60 \<and> c \<noteq> 0" and "13 \<notin> set (script_input h)"
  shows "browser_script h = Some (Closed xs rest)"
proof -
  have plain: "\<forall>c\<in>set xs. sd_char SData [] c = Go SData [] [c]"
    using assms(2) by (auto simp del: sd_char.simps simp: sd_char_plain)
  have "sd_run SData [] [] (script_input h) = Closed xs rest"
    unfolding assms(1) sd_run_plain [OF plain] append_Nil by (rule sd_run_end_tag)
  then show ?thesis
    by (simp add: browser_script_eq norm_newlines_id [OF assms(3)] script_text_run)
qed

text \<open>
  The script element is the one the code writes as soon as the statement of line 193 has
  no \<^verbatim>\<open><\<close>, NUL or CR.
\<close>

lemma browser_script_intended:
  assumes line: "\<forall>c\<in>set (map of_char (copy_script_line h) :: nat list). c \<noteq> 60 \<and> c \<noteq> 0 \<and> c \<noteq> 13"
  shows "browser_script h =
           Some (Closed (copy_fn_head @ map of_char (copy_script_line h) @ copy_fn_tail) copy_trailer)"
proof (rule browser_script_closes)
  note parts = copy_parts_plain
  show "script_input h = (copy_fn_head @ map of_char (copy_script_line h) @ copy_fn_tail) @
                          map of_char ''</script>'' @ copy_trailer"
    by (simp only: script_input_def append_assoc)
  show "\<forall>c\<in>set (copy_fn_head @ map of_char (copy_script_line h) @ copy_fn_tail). c \<noteq> 60 \<and> c \<noteq> 0"
    using line parts by auto
  show "13 \<notin> set (script_input h)"
    using line parts by (auto simp: script_input_def)
qed

subsection \<open>Properties of the copy component\<close>

text \<open>
  C19: for a result without \<^verbatim>\<open><\<close> and without NUL, the browser's script element holds
  exactly the script the code writes (the function head, the statement of line 193 with
  the escaped result, the rest of the function) and ends at the \<^verbatim>\<open></script>\<close> of
  line 208.
\<close>

theorem browser_runs_copy_script:
  "CHR ''<'' \<notin> set h \<Longrightarrow> CHR 0x00 \<notin> set h \<Longrightarrow>
   browser_script h =
     Some (Closed (copy_fn_head @ map of_char (copy_script_line h) @ copy_fn_tail) copy_trailer)"
  by (rule browser_script_intended [OF copy_script_line_plain])

theorem browser_runs_copy_script_witness:
  "CHR ''<'' \<notin> set ''a`b'' \<and> CHR 0x00 \<notin> set ''a`b'' \<and>
   browser_script ''a`b'' =
     Some (Closed (copy_fn_head @ map of_char (copy_script_line ''a`b'') @ copy_fn_tail) copy_trailer)"
proof -
  have h: "CHR ''<'' \<notin> set ''a`b''" "CHR 0x00 \<notin> set ''a`b''" by simp_all
  show ?thesis using h browser_runs_copy_script [OF h] by blast
qed

text \<open>
  C20: a result that contains \<^verbatim>\<open></script>\<close> ends the script element inside the
  template literal.  For every result \<open>u\<close>\<^verbatim>\<open></script>\<close>\<open>w\<close> whose part \<open>u\<close> has no
  \<^verbatim>\<open><\<close> and no NUL, the browser's script stops at \<^verbatim>\<open>const text = `\<close> and the
  escaped \<open>u\<close>, and the document goes on as HTML markup with the escaped rest \<open>w\<close>
  (for instance an image whose error handler runs script), followed by the rest of the
  function as text.
\<close>

theorem result_closes_script_early:
  "CHR ''<'' \<notin> set u \<Longrightarrow> CHR 0x00 \<notin> set u \<Longrightarrow>
   browser_script (u @ ''</script>'' @ w) =
     Some (Closed (copy_fn_head @ map of_char (''const text = `'' @ js_escape u))
             (map of_char (js_escape w @ ''`;'') @ copy_fn_tail @ map of_char ''</script>'' @
              copy_trailer))"
proof (rule browser_script_closes)
  assume u: "CHR ''<'' \<notin> set u" "CHR 0x00 \<notin> set u"
  have esc: "js_escape (u @ ''</script>'' @ w) = js_escape u @ ''</script>'' @ js_escape w"
    by (rule js_escape_around) (simp_all add: btick_def)
  show "script_input (u @ ''</script>'' @ w) =
          (copy_fn_head @ map of_char (''const text = `'' @ js_escape u)) @ map of_char ''</script>'' @
          (map of_char (js_escape w @ ''`;'') @ copy_fn_tail @ map of_char ''</script>'' @ copy_trailer)"
    unfolding script_input_splice esc by simp
  show "\<forall>c\<in>set (copy_fn_head @ map of_char (''const text = `'' @ js_escape u)). c \<noteq> 60 \<and> c \<noteq> 0"
    using copy_parts_plain(1) js_escape_plain_codes [OF u] by auto
  show "13 \<notin> set (script_input (u @ ''</script>'' @ w))" by (rule script_input_no_cr)
qed

theorem result_closes_script_early_witness:
  "CHR ''<'' \<notin> set ''a'' \<and> CHR 0x00 \<notin> set ''a'' \<and>
   browser_script (''a'' @ ''</script>'' @ ''<img src=x onerror=alert(1)>'') =
     Some (Closed (copy_fn_head @ map of_char (''const text = `'' @ js_escape ''a''))
             (map of_char (js_escape ''<img src=x onerror=alert(1)>'' @ ''`;'') @ copy_fn_tail @
              map of_char ''</script>'' @ copy_trailer))"
proof -
  have u: "CHR ''<'' \<notin> set ''a''" "CHR 0x00 \<notin> set ''a''" by simp_all
  show ?thesis using u result_closes_script_early [OF u, of "''<img src=x onerror=alert(1)>''"] by blast
qed

text \<open>
  C21: a result that contains \<^verbatim>\<open><!--<script>\<close> puts the tokenizer in the
  double-escaped state.  For every result \<open>u\<close>\<^verbatim>\<open><!--<script>\<close>\<open>w\<close> with no
  \<^verbatim>\<open><\<close> and no NUL in \<open>u\<close> and no \<^verbatim>\<open><\<close>, \<^verbatim>\<open>-\<close> or NUL in \<open>w\<close>, the
  \<^verbatim>\<open></script>\<close> of line 208 only leaves the double-escaped state, the rest of the
  document is script text, and the element is never closed: the copy function is never
  defined.
\<close>

theorem comment_script_unclosed:
  "CHR ''<'' \<notin> set u \<Longrightarrow> CHR 0x00 \<notin> set u \<Longrightarrow>
   CHR ''<'' \<notin> set w \<Longrightarrow> CHR ''-'' \<notin> set w \<Longrightarrow> CHR 0x00 \<notin> set w \<Longrightarrow>
   browser_script (u @ ''<!--<script>'' @ w) =
     Some (Unclosed (script_input (u @ ''<!--<script>'' @ w)))"
proof -
  assume u: "CHR ''<'' \<notin> set u" "CHR 0x00 \<notin> set u"
    and w: "CHR ''<'' \<notin> set w" "CHR ''-'' \<notin> set w" "CHR 0x00 \<notin> set w"
  let ?A = "copy_fn_head @ map of_char (''const text = `'' @ js_escape u)"
  let ?B = "map of_char ''<!--<script>'' :: nat list"
  let ?C = "map of_char (js_escape w @ ''`;'') @ copy_fn_tail"
  let ?D = "map of_char ''</script>'' :: nat list"
  have esc: "js_escape (u @ ''<!--<script>'' @ w) = js_escape u @ ''<!--<script>'' @ js_escape w"
    by (rule js_escape_around) (simp_all add: btick_def)
  have inp: "script_input (u @ ''<!--<script>'' @ w) = ?A @ ?B @ ?C @ ?D @ copy_trailer"
    unfolding script_input_splice esc by simp
  have pA: "\<forall>c\<in>set ?A. sd_char SData [] c = Go SData [] [c]"
    using copy_parts_plain(1) js_escape_plain_codes [OF u]
    by (auto simp del: sd_char.simps simp: sd_char_plain)
  have "\<forall>c\<in>set (map of_char (js_escape w) :: nat list). c \<noteq> 60 \<and> c \<noteq> 45 \<and> c \<noteq> 0"
    using js_escape_plain_codes [OF w(1,3)] js_escape_no_dash_code [OF w(2)] by blast
  then have cC: "\<forall>c\<in>set ?C. c \<noteq> 60 \<and> c \<noteq> 45 \<and> c \<noteq> 0"
    using copy_parts_plain(2) unfolding map_append set_append by auto
  have pC: "\<forall>c\<in>set ?C. sd_char SDbl script_name c = Go SDbl script_name [c]"
    using cC by (auto simp del: sd_char.simps simp: sd_char_plain)
  have pE: "\<forall>c\<in>set copy_trailer. sd_char SEsc script_name c = Go SEsc script_name [c]"
    using copy_parts_plain(3) by (auto simp del: sd_char.simps simp: sd_char_plain)
  have "sd_run SData [] [] (?A @ ?B @ ?C @ ?D @ copy_trailer) =
          sd_run SDbl script_name (?A @ ?B) (?C @ ?D @ copy_trailer)"
    unfolding sd_run_plain [OF pA] append_Nil by (rule sd_run_comment_script)
  also have "\<dots> = sd_run SEsc script_name (?A @ ?B @ ?C @ ?D) copy_trailer"
    unfolding sd_run_plain [OF pC] sd_run_dbl_end_tag by simp
  also have "\<dots> = Unclosed (?A @ ?B @ ?C @ ?D @ copy_trailer)"
    using sd_run_plain [OF pE, of "?A @ ?B @ ?C @ ?D" "[]"] by simp
  finally have run: "sd_run SData [] [] (script_input (u @ ''<!--<script>'' @ w)) =
                       Unclosed (script_input (u @ ''<!--<script>'' @ w))"
    unfolding inp .
  show ?thesis
    unfolding browser_script_eq norm_newlines_id [OF script_input_no_cr] script_text_run run ..
qed

theorem comment_script_unclosed_witness:
  "CHR ''<'' \<notin> set ''x'' \<and> CHR 0x00 \<notin> set ''x'' \<and>
   CHR ''<'' \<notin> set '' y'' \<and> CHR ''-'' \<notin> set '' y'' \<and> CHR 0x00 \<notin> set '' y'' \<and>
   browser_script (''x'' @ ''<!--<script>'' @ '' y'') =
     Some (Unclosed (script_input (''x'' @ ''<!--<script>'' @ '' y'')))"
proof -
  have h: "CHR ''<'' \<notin> set ''x''" "CHR 0x00 \<notin> set ''x''"
    "CHR ''<'' \<notin> set '' y''" "CHR ''-'' \<notin> set '' y''" "CHR 0x00 \<notin> set '' y''"
    by simp_all
  show ?thesis using h comment_script_unclosed [OF h] by blast
qed

end
