(* ===== verification/App.thy ===== *)
theory App
  imports Humanizer Copy_Html
begin

text \<open>
  The page, function \<^verbatim>\<open>main\<close> of \<open>src/app.py\<close> (lines 123--210).  Streamlit runs
  \<^verbatim>\<open>main\<close> from the top on every interaction: the sidebar widgets give the style, the
  temperature and the model, the text area gives the text, the button says whether it
  was pressed in this run, and \<^verbatim>\<open>st.session_state\<close> is the only state kept between
  runs.  One run is the function \<open>main_run\<close> from those inputs and the session to the
  widgets it shows and the new session.  A fresh humanizer is built in every run and
  configured with the selection before any call; a failure there is shown as an error
  and ends the run.  The API key literal of line 127 is a parameter of the run.
  Static widgets (headers, columns, spinner) are not modelled.
\<close>

record ui_input =
  ui_style :: string
  ui_temperature :: real
  ui_model :: string
  ui_text :: string
  ui_button :: bool

record session =
  humanized_text :: "string option"

datatype widget =
    ErrorBox string
  | WordCount nat
  | WarningBox string
  | ResultArea string
  | CopyButton "nat list"

text \<open>
  The page configuration of lines 10--15, set on every run of the script before
  \<^verbatim>\<open>main\<close>; the icon is a code point sequence (robot, arrow, variation selector,
  man).
\<close>

record page_settings =
  page_title :: string
  page_icon :: "nat list"
  layout :: string
  initial_sidebar_state :: string

definition page_config :: page_settings where
  "page_config =
     \<lparr>page_title = ''Text Humanizer RAG'', page_icon = [0x1F916, 0x27A1, 0xFE0F, 0x1F468],
      layout = ''wide'', initial_sidebar_state = ''expanded''\<rparr>"

definition style_options :: "string list" where
  "style_options = [''conversational'', ''professional'', ''friendly'', ''storytelling'',
                    ''layman_terms'', ''indian_english'']"

definition model_options :: "string list" where
  "model_options = [''deepseek-r1-distill-llama-70b'', ''llama3-8b-8192'', ''llama3-70b-8192'',
                    ''mixtral-8x7b-32768'', ''gemma2-9b-it'']"

definition init_error :: "py_exc \<Rightarrow> widget list" where
  "init_error e = [ErrorBox (''Error initializing RAG system: '' @ py_str_exc e)]"

text \<open>
  Column 2: the stored result, its word count and the copy component, whose HTML document
  is the f-string of lines 172--209 handed to \<^verbatim>\<open>st.components.v1.html\<close> (line 210).
\<close>

definition result_column :: "session \<Rightarrow> widget list" where
  "result_column sess =
     (case humanized_text sess of
        None \<Rightarrow> []
      | Some h \<Rightarrow> [ResultArea h, WordCount (length (py_split h)), CopyButton (copy_html h)])"

definition main_run :: "groq_backend \<Rightarrow> string \<Rightarrow> ui_input \<Rightarrow> session \<Rightarrow> widget list \<times> session" where
  "main_run be key inp sess =
     (case TextHumanizerRAG_init be key of
        Inl e \<Rightarrow> (init_error e, sess)
      | Inr rag0 \<Rightarrow>
          (case update_model_settings be (ui_model inp) (ui_temperature inp) rag0 of
             (Some e, _) \<Rightarrow> (init_error e, sess)
           | (None, rag) \<Rightarrow>
               (let original_text = ui_text inp;
                    count = WordCount (length (py_split original_text));
                    (col1, sess1) =
                      (if ui_button inp then
                         (if py_strip original_text \<noteq> []
                          then ([], sess\<lparr>humanized_text :=
                                   Some (fst (humanize_text be original_text (ui_style inp)
                                                (ui_temperature inp) rag))\<rparr>)
                          else ([WarningBox ''Please enter some text to humanize''], sess))
                       else ([], sess))
                in (count # col1 @ result_column sess1, sess1))))"

text \<open>
  The session across reruns: starting without a stored result, any sequence of runs with
  any inputs (the backend and the key are fixed by the deployment).
\<close>

inductive session_reachable :: "groq_backend \<Rightarrow> string \<Rightarrow> session \<Rightarrow> bool" where
  start: "session_reachable be key \<lparr>humanized_text = None\<rparr>"
| run: "session_reachable be key sess \<Longrightarrow> session_reachable be key (snd (main_run be key inp sess))"

text \<open>
  Reruns as a trace: the session after a sequence of runs, each with its own inputs.  A
  run dispatches when both constructor calls succeed and the button is pressed on a
  non-blank text.
\<close>

definition page_trace :: "groq_backend \<Rightarrow> string \<Rightarrow> ui_input list \<Rightarrow> session \<Rightarrow> session" where
  "page_trace be key inps sess = foldl (\<lambda>s inp. snd (main_run be key inp s)) sess inps"

definition selected_config :: "string \<Rightarrow> ui_input \<Rightarrow> client_config" where
  "selected_config key inp =
     \<lparr>cfg_model = ui_model inp, cfg_temperature = ui_temperature inp, cfg_api_key = key\<rparr>"

definition dispatches :: "groq_backend \<Rightarrow> string \<Rightarrow> ui_input \<Rightarrow> bool" where
  "dispatches be key inp \<longleftrightarrow>
     groq_construct be \<lparr>cfg_model = ''gemma2-9b-it'', cfg_temperature = 0.7, cfg_api_key = key\<rparr> = None \<and>
     groq_construct be (selected_config key inp) = None \<and> ui_button inp \<and> py_strip (ui_text inp) \<noteq> []"

subsection \<open>Lemmas\<close>

lemma main_run_no_dispatch:
  "\<not> dispatches be key inp \<Longrightarrow> snd (main_run be key inp sess) = sess"
  by (auto simp: main_run_def dispatches_def selected_config_def TextHumanizerRAG_init_def
                 update_model_settings_def Let_def split: option.split prod.split sum.split)

lemma page_trace_append:
  "page_trace be key (xs @ ys) sess = page_trace be key ys (page_trace be key xs sess)"
  by (simp add: page_trace_def)

lemma page_trace_idle:
  "\<forall>y\<in>set ys. \<not> dispatches be key y \<Longrightarrow> page_trace be key ys sess = sess"
  by (induction ys arbitrary: sess) (simp_all add: page_trace_def main_run_no_dispatch)

text \<open>The style selector offers exactly the keys of the template dictionary, in order.\<close>

lemma style_options_are_template_keys: "style_options = style_keys"
  by (simp add: style_options_def style_keys_eq)

lemma update_model_settings_invoke_indep:
  "update_model_settings (be\<lparr>groq_invoke := f\<rparr>) m t self = update_model_settings be m t self"
  by (simp add: update_model_settings_def)

lemma init_invoke_indep:
  "TextHumanizerRAG_init (be\<lparr>groq_invoke := f\<rparr>) key = TextHumanizerRAG_init be key"
  by (simp add: TextHumanizerRAG_init_def update_model_settings_invoke_indep)

lemma main_run_session:
  "humanized_text (snd (main_run be key inp sess)) = humanized_text sess \<or>
   (\<exists>rag. humanized_text (snd (main_run be key inp sess)) =
           Some (fst (humanize_text be (ui_text inp) (ui_style inp) (ui_temperature inp) rag)))"
  by (auto simp: main_run_def Let_def split: sum.split prod.split option.split)

text \<open>
  A run whose configuration is accepted, with the button pressed on a non-blank text,
  stores the result of the specified pipeline for exactly the selected model and
  temperature.
\<close>

lemma main_run_dispatch:
  assumes init: "groq_construct be \<lparr>cfg_model = ''gemma2-9b-it'', cfg_temperature = 0.7, cfg_api_key = key\<rparr> = None"
    and sel: "groq_construct be \<lparr>cfg_model = ui_model inp, cfg_temperature = ui_temperature inp,
                                  cfg_api_key = key\<rparr> = None"
    and pressed: "ui_button inp" and nonblank: "py_strip (ui_text inp) \<noteq> []"
  shows "snd (main_run be key inp sess) =
           sess\<lparr>humanized_text :=
             Some (humanize_spec be \<lparr>cfg_model = ui_model inp, cfg_temperature = ui_temperature inp,
                                     cfg_api_key = key\<rparr> (ui_text inp) (ui_style inp))\<rparr>"
proof -
  let ?cfgI = "\<lparr>cfg_model = ''gemma2-9b-it'', cfg_temperature = 0.7, cfg_api_key = key\<rparr>"
  let ?ragI = "\<lparr>api_key = key, model = ''gemma2-9b-it'', llm = Some ?cfgI, temperature = 0.7\<rparr>"
  let ?cfg = "\<lparr>cfg_model = ui_model inp, cfg_temperature = ui_temperature inp, cfg_api_key = key\<rparr>"
  let ?rag = "?ragI\<lparr>model := ui_model inp, temperature := ui_temperature inp, llm := Some ?cfg\<rparr>"
  have i: "TextHumanizerRAG_init be key = Inr ?ragI"
    using init by (rule TextHumanizerRAG_init_ok)
  have u: "update_model_settings be (ui_model inp) (ui_temperature inp) ?ragI = (None, ?rag)"
    using update_model_settings_ok [where be = be and m = "ui_model inp" and t = "ui_temperature inp"
        and self = ?ragI] sel by (simp add: config_of_def)
  have l: "llm ?rag = Some ?cfg" by simp
  have h: "humanize_text be (ui_text inp) (ui_style inp) (ui_temperature inp) ?rag =
             (humanize_spec be ?cfg (ui_text inp) (ui_style inp), ?rag)"
    using humanize_text_unchanged_temperature [OF l] by simp
  have ne: "ui_text inp \<noteq> []" using nonblank by (auto simp: py_strip_def)
  show ?thesis using i u h pressed nonblank ne by (simp add: main_run_def Let_def)
qed

subsection \<open>Properties of the page\<close>

text \<open>
  C8: invariant over reruns.  In every session reachable by a sequence of runs, a stored
  result is either an error text beginning with \<^verbatim>\<open>"Error: "\<close> or the sanitized
  content of a response that the deployment's backend returned for the system directive
  and a prompt: the page never raises out of the pipeline and never stores an answer
  without passing it through line 117.
\<close>

theorem session_text_invariant:
  "session_reachable be key sess \<Longrightarrow> humanized_text sess = Some h \<Longrightarrow>
   prefix ''Error: '' h \<or>
   (\<exists>cfg p c. groq_invoke be cfg [SystemMessage system_directive, HumanMessage p] = Inr c \<and>
              h = clean_response c)"
proof (induction arbitrary: h rule: session_reachable.induct)
  case start
  then show ?case by simp
next
  case (run be key sess inp)
  from main_run_session [of be key inp sess] show ?case
  proof
    assume "humanized_text (snd (main_run be key inp sess)) = humanized_text sess"
    with run show ?thesis by simp
  next
    assume "\<exists>rag. humanized_text (snd (main_run be key inp sess)) =
              Some (fst (humanize_text be (ui_text inp) (ui_style inp) (ui_temperature inp) rag))"
    then obtain rag where "h = fst (humanize_text be (ui_text inp) (ui_style inp) (ui_temperature inp) rag)"
      using run.prems by auto
    then show ?thesis using humanize_text_result_shape [of be "ui_text inp" "ui_style inp"] by simp
  qed
qed

theorem session_text_invariant_witness:
  "session_reachable echo_backend ''k''
     (snd (main_run echo_backend ''k''
        \<lparr>ui_style = ''friendly'', ui_temperature = 0.7, ui_model = ''gemma2-9b-it'',
         ui_text = ''hi'', ui_button = True\<rparr> \<lparr>humanized_text = None\<rparr>)) \<and>
   humanized_text (snd (main_run echo_backend ''k''
        \<lparr>ui_style = ''friendly'', ui_temperature = 0.7, ui_model = ''gemma2-9b-it'',
         ui_text = ''hi'', ui_button = True\<rparr> \<lparr>humanized_text = None\<rparr>)) =
     Some (clean_response ''gemma2-9b-it'') \<and>
   (prefix ''Error: '' (clean_response ''gemma2-9b-it'') \<or>
    (\<exists>cfg p c. groq_invoke echo_backend cfg [SystemMessage system_directive, HumanMessage p] = Inr c \<and>
               clean_response ''gemma2-9b-it'' = clean_response c))"
proof -
  let ?inp = "\<lparr>ui_style = ''friendly'', ui_temperature = 0.7::real, ui_model = ''gemma2-9b-it'',
               ui_text = ''hi'', ui_button = True\<rparr>"
  have r: "session_reachable echo_backend ''k'' (snd (main_run echo_backend ''k'' ?inp \<lparr>humanized_text = None\<rparr>))"
    by (rule session_reachable.run [OF session_reachable.start])
  have v: "humanized_text (snd (main_run echo_backend ''k'' ?inp \<lparr>humanized_text = None\<rparr>)) =
             Some (clean_response ''gemma2-9b-it'')"
    by (simp add: main_run_def TextHumanizerRAG_init_def update_model_settings_def humanize_text_def
        create_humanization_prompt_eq echo_backend_def py_strip_def py_isspace_def py_whitespace_def
        Let_def)
  show ?thesis using r v session_text_invariant [OF r v] by blast
qed

subsection \<open>Further properties of the page\<close>

text \<open>
  C7: blank input never reaches the remote model: for a text that is empty or all
  whitespace, the run is the same whatever the remote call would answer, and the
  session is left as it was.
\<close>

theorem blank_input_never_dispatched:
  "py_strip (ui_text inp) = [] \<Longrightarrow>
   main_run (be\<lparr>groq_invoke := f\<rparr>) key inp sess = main_run be key inp sess \<and>
   snd (main_run be key inp sess) = sess"
  by (simp add: main_run_def init_invoke_indep update_model_settings_invoke_indep Let_def
           split: sum.split prod.split option.split)

theorem blank_input_never_dispatched_witness:
  "py_strip (ui_text \<lparr>ui_style = ''friendly'', ui_temperature = 0.5, ui_model = ''gemma2-9b-it'',
                       ui_text = '' '', ui_button = True\<rparr>) = [] \<and>
   main_run (echo_backend\<lparr>groq_invoke := (\<lambda>cfg msgs. Inl ''down'')\<rparr>) ''k''
     \<lparr>ui_style = ''friendly'', ui_temperature = 0.5, ui_model = ''gemma2-9b-it'',
      ui_text = '' '', ui_button = True\<rparr> \<lparr>humanized_text = None\<rparr> =
   main_run echo_backend ''k''
     \<lparr>ui_style = ''friendly'', ui_temperature = 0.5, ui_model = ''gemma2-9b-it'',
      ui_text = '' '', ui_button = True\<rparr> \<lparr>humanized_text = None\<rparr> \<and>
   snd (main_run echo_backend ''k''
     \<lparr>ui_style = ''friendly'', ui_temperature = 0.5, ui_model = ''gemma2-9b-it'',
      ui_text = '' '', ui_button = True\<rparr> \<lparr>humanized_text = None\<rparr>) = \<lparr>humanized_text = None\<rparr>"
proof -
  have h: "py_strip (ui_text \<lparr>ui_style = ''friendly'', ui_temperature = 0.5, ui_model = ''gemma2-9b-it'',
                       ui_text = '' '', ui_button = True\<rparr>) = []"
    by (simp add: py_strip_def py_isspace_def py_whitespace_def)
  show ?thesis using h blank_input_never_dispatched [OF h] by blast
qed

text \<open>
  C17: the warning of line 155 and the word count of line 151 agree.  When the page gets
  past the initialisation and the button is pressed, the run shows the word count of the
  text first, and it shows the warning "Please enter some text to humanize" exactly when
  that count is zero: the guard \<^verbatim>\<open>original_text.strip()\<close> refuses the texts without
  words and no other.
\<close>

theorem blank_warning_iff_no_words:
  "groq_construct be \<lparr>cfg_model = ''gemma2-9b-it'', cfg_temperature = 0.7, cfg_api_key = key\<rparr> = None \<Longrightarrow>
   groq_construct be (selected_config key inp) = None \<Longrightarrow> ui_button inp \<Longrightarrow>
   hd (fst (main_run be key inp sess)) = WordCount (length (py_split (ui_text inp))) \<and>
   (WarningBox ''Please enter some text to humanize'' \<in> set (fst (main_run be key inp sess)) \<longleftrightarrow>
    length (py_split (ui_text inp)) = 0)"
  by (simp add: main_run_def TextHumanizerRAG_init_def update_model_settings_def selected_config_def
                result_column_def py_strip_Nil_iff py_split_Nil_iff Let_def split: option.split)

theorem blank_warning_iff_no_words_witness:
  "groq_construct echo_backend \<lparr>cfg_model = ''gemma2-9b-it'', cfg_temperature = 0.7, cfg_api_key = ''k''\<rparr> = None \<and>
   groq_construct echo_backend (selected_config ''k'' \<lparr>ui_style = ''friendly'', ui_temperature = 0.5,
       ui_model = ''gemma2-9b-it'', ui_text = '' '', ui_button = True\<rparr>) = None \<and>
   ui_button \<lparr>ui_style = ''friendly'', ui_temperature = 0.5, ui_model = ''gemma2-9b-it'',
              ui_text = '' '', ui_button = True\<rparr> \<and>
   hd (fst (main_run echo_backend ''k'' \<lparr>ui_style = ''friendly'', ui_temperature = 0.5,
       ui_model = ''gemma2-9b-it'', ui_text = '' '', ui_button = True\<rparr> \<lparr>humanized_text = None\<rparr>)) =
     WordCount 0 \<and>
   WarningBox ''Please enter some text to humanize'' \<in>
     set (fst (main_run echo_backend ''k'' \<lparr>ui_style = ''friendly'', ui_temperature = 0.5,
       ui_model = ''gemma2-9b-it'', ui_text = '' '', ui_button = True\<rparr> \<lparr>humanized_text = None\<rparr>))"
proof -
  let ?inp = "\<lparr>ui_style = ''friendly'', ui_temperature = 0.5::real, ui_model = ''gemma2-9b-it'',
               ui_text = '' '', ui_button = True\<rparr>"
  have h: "groq_construct echo_backend \<lparr>cfg_model = ''gemma2-9b-it'', cfg_temperature = 0.7, cfg_api_key = ''k''\<rparr> = None"
    "groq_construct echo_backend (selected_config ''k'' ?inp) = None" "ui_button ?inp"
    by (simp_all add: echo_backend_def)
  have w: "length (py_split (ui_text ?inp)) = 0"
    by (simp add: py_split_def py_isspace_def py_whitespace_def)
  show ?thesis using h w blank_warning_iff_no_words [OF h, of "\<lparr>humanized_text = None\<rparr>"] by simp
qed

text \<open>
  C22: progress.  If the backend accepts the default client of the constructor, then from
  every reachable session one more run (default model and temperature, the button
  pressed on a non-blank text) reaches a session that shows a result.
\<close>

theorem result_reachable:
  "groq_construct be \<lparr>cfg_model = ''gemma2-9b-it'', cfg_temperature = 0.7, cfg_api_key = key\<rparr> = None \<Longrightarrow>
   session_reachable be key sess \<Longrightarrow>
   \<exists>inp. session_reachable be key (snd (main_run be key inp sess)) \<and>
         humanized_text (snd (main_run be key inp sess)) \<noteq> None"
proof -
  assume init: "groq_construct be \<lparr>cfg_model = ''gemma2-9b-it'', cfg_temperature = 0.7, cfg_api_key = key\<rparr> = None"
    and r: "session_reachable be key sess"
  let ?inp = "\<lparr>ui_style = ''conversational'', ui_temperature = 0.7, ui_model = ''gemma2-9b-it'',
               ui_text = ''x'', ui_button = True\<rparr>"
  have "humanized_text (snd (main_run be key ?inp sess)) \<noteq> None"
    using main_run_dispatch [of be key ?inp] init by (simp add: py_strip_def py_isspace_def py_whitespace_def)
  moreover have "session_reachable be key (snd (main_run be key ?inp sess))"
    using r by (rule session_reachable.run)
  ultimately show ?thesis by blast
qed

theorem result_reachable_witness:
  "groq_construct echo_backend \<lparr>cfg_model = ''gemma2-9b-it'', cfg_temperature = 0.7, cfg_api_key = ''k''\<rparr> = None \<and>
   session_reachable echo_backend ''k'' \<lparr>humanized_text = None\<rparr> \<and>
   (\<exists>inp. session_reachable echo_backend ''k'' (snd (main_run echo_backend ''k'' inp \<lparr>humanized_text = None\<rparr>)) \<and>
          humanized_text (snd (main_run echo_backend ''k'' inp \<lparr>humanized_text = None\<rparr>)) \<noteq> None)"
proof -
  have h: "groq_construct echo_backend \<lparr>cfg_model = ''gemma2-9b-it'', cfg_temperature = 0.7, cfg_api_key = ''k''\<rparr> = None"
    by (simp add: echo_backend_def)
  have r: "session_reachable echo_backend ''k'' \<lparr>humanized_text = None\<rparr>"
    by (rule session_reachable.start)
  show ?thesis using h r result_reachable [OF h r] by blast
qed

text \<open>
  C23: a shown result is never lost: once the session holds a result, every later run
  keeps one, whatever its inputs and whatever the backend does.
\<close>

theorem stored_result_persists:
  "humanized_text sess \<noteq> None \<Longrightarrow> humanized_text (snd (main_run be key inp sess)) \<noteq> None"
  using main_run_session [of be key inp sess] by auto

theorem stored_result_persists_witness:
  "humanized_text \<lparr>humanized_text = Some ''r''\<rparr> \<noteq> None \<and>
   humanized_text (snd (main_run picky_backend ''k''
      \<lparr>ui_style = ''friendly'', ui_temperature = 0.5, ui_model = ''gemma2-9b-it'',
       ui_text = '' '', ui_button = True\<rparr> \<lparr>humanized_text = Some ''r''\<rparr>)) \<noteq> None"
proof -
  have h: "humanized_text \<lparr>humanized_text = Some ''r''\<rparr> \<noteq> None" by simp
  show ?thesis using h stored_result_persists [OF h] by blast
qed

text \<open>
  C28: last write wins.  After a trace of runs, the page shows the result of the last run
  that dispatched; the runs after it (button not pressed, blank text, rejected
  configuration) leave it in place.
\<close>

theorem last_dispatch_wins:
  "dispatches be key i \<Longrightarrow> \<forall>y\<in>set ys. \<not> dispatches be key y \<Longrightarrow>
   humanized_text (page_trace be key (xs @ i # ys) sess) =
     Some (humanize_spec be (selected_config key i) (ui_text i) (ui_style i))"
proof -
  assume d: "dispatches be key i" and idle: "\<forall>y\<in>set ys. \<not> dispatches be key y"
  let ?s = "page_trace be key xs sess"
  have "snd (main_run be key i ?s) =
          ?s\<lparr>humanized_text := Some (humanize_spec be (selected_config key i) (ui_text i) (ui_style i))\<rparr>"
    using d main_run_dispatch [of be key i ?s] by (simp add: dispatches_def selected_config_def)
  moreover have "page_trace be key (xs @ i # ys) sess = page_trace be key ys (snd (main_run be key i ?s))"
    by (simp add: page_trace_append page_trace_def)
  ultimately show ?thesis by (simp add: page_trace_idle [OF idle])
qed

theorem last_dispatch_wins_witness:
  "dispatches echo_backend ''k'' \<lparr>ui_style = ''friendly'', ui_temperature = 0.7, ui_model = ''llama3-8b-8192'',
                                  ui_text = ''hi'', ui_button = True\<rparr> \<and>
   \<not> dispatches echo_backend ''k'' \<lparr>ui_style = ''friendly'', ui_temperature = 0.3, ui_model = ''gemma2-9b-it'',
                                   ui_text = ''later'', ui_button = False\<rparr> \<and>
   humanized_text (page_trace echo_backend ''k''
      ([] @ \<lparr>ui_style = ''friendly'', ui_temperature = 0.7, ui_model = ''llama3-8b-8192'',
             ui_text = ''hi'', ui_button = True\<rparr> #
       [\<lparr>ui_style = ''friendly'', ui_temperature = 0.3, ui_model = ''gemma2-9b-it'',
         ui_text = ''later'', ui_button = False\<rparr>]) \<lparr>humanized_text = None\<rparr>) =
     Some (humanize_spec echo_backend
             (selected_config ''k'' \<lparr>ui_style = ''friendly'', ui_temperature = 0.7, ui_model = ''llama3-8b-8192'',
                                     ui_text = ''hi'', ui_button = True\<rparr>) ''hi'' ''friendly'')"
proof -
  have d: "dispatches echo_backend ''k'' \<lparr>ui_style = ''friendly'', ui_temperature = 0.7, ui_model = ''llama3-8b-8192'',
                                          ui_text = ''hi'', ui_button = True\<rparr>"
    by (simp add: dispatches_def echo_backend_def py_strip_def py_isspace_def py_whitespace_def)
  have i: "\<forall>y\<in>set [\<lparr>ui_style = ''friendly'', ui_temperature = 0.3, ui_model = ''gemma2-9b-it'',
                      ui_text = ''later'', ui_button = False\<rparr>]. \<not> dispatches echo_backend ''k'' y"
    by (simp add: dispatches_def)
  show ?thesis using d i last_dispatch_wins [OF d i, of "[]" "\<lparr>humanized_text = None\<rparr>"] by simp
qed

text \<open>
  C29: error path.  When the constructor rejects the selected model and temperature, the
  run shows the initialisation error and nothing else, and returns early: the stored
  result, its word count and the copy button disappear from the page (the session still
  holds the result).
\<close>

theorem selection_rejected_hides_result:
  "groq_construct be \<lparr>cfg_model = ''gemma2-9b-it'', cfg_temperature = 0.7, cfg_api_key = key\<rparr> = None \<Longrightarrow>
   groq_construct be (selected_config key inp) = Some err \<Longrightarrow>
   main_run be key inp sess = ([ErrorBox (''Error initializing RAG system: '' @ err)], sess)"
  by (simp add: main_run_def TextHumanizerRAG_init_def update_model_settings_def init_error_def
                selected_config_def)

theorem selection_rejected_hides_result_witness:
  "groq_construct picky_backend \<lparr>cfg_model = ''gemma2-9b-it'', cfg_temperature = 0.7, cfg_api_key = ''k''\<rparr> = None \<and>
   groq_construct picky_backend (selected_config ''k'' \<lparr>ui_style = ''friendly'', ui_temperature = 0.5,
       ui_model = ''gemma2-9b-it'', ui_text = ''hi'', ui_button = False\<rparr>) = Some ''bad temperature'' \<and>
   main_run picky_backend ''k'' \<lparr>ui_style = ''friendly'', ui_temperature = 0.5,
       ui_model = ''gemma2-9b-it'', ui_text = ''hi'', ui_button = False\<rparr> \<lparr>humanized_text = Some ''r''\<rparr> =
     ([ErrorBox (''Error initializing RAG system: '' @ ''bad temperature'')], \<lparr>humanized_text = Some ''r''\<rparr>)"
proof -
  have h: "groq_construct picky_backend \<lparr>cfg_model = ''gemma2-9b-it'', cfg_temperature = 0.7, cfg_api_key = ''k''\<rparr> = None"
    "groq_construct picky_backend (selected_config ''k'' \<lparr>ui_style = ''friendly'', ui_temperature = 0.5,
       ui_model = ''gemma2-9b-it'', ui_text = ''hi'', ui_button = False\<rparr>) = Some ''bad temperature''"
    by (simp_all add: picky_backend_def selected_config_def)
  show ?thesis using h selection_rejected_hides_result [OF h] by blast
qed

end
