(* ===== verification/Copy_Script.thy ===== *)
theory Copy_Script
  imports Copy_Html
begin

text \<open>
  The copy button at work in the browser (\<open>src/app.py\<close>, lines 174--207).  The page is a
  record of what the script and the button change: the value \<^verbatim>\<open>text\<close> of
  \<^verbatim>\<open>copyToClipboard\<close> (\<open>None\<close> when the page does not define the function the code
  writes), the button's \<^verbatim>\<open>innerHTML\<close> and \<^verbatim>\<open>style.color\<close>, the global
  \<^verbatim>\<open>window.event\<close> (defined only while an event is dispatched), the system clipboard,
  the alerts shown, the clipboard writes not yet settled and the pending
  \<^verbatim>\<open>setTimeout\<close> callbacks.  The environment drives the page by events: a click, the
  mouse entering or leaving the button, the settling of a write (fulfilled or rejected)
  and the firing of a timer.  \<open>js_step\<close> runs one event to completion, as the browser's
  event loop runs one task and its microtasks; \<open>js_reachable\<close> is the set of pages
  reachable by any sequence of events.  The promise returned by
  \<^verbatim>\<open>navigator.clipboard.writeText\<close> settles in a later task than the click, so its
  callbacks run when no event is being dispatched.
\<close>

datatype js_event = Click | MouseOver | MouseOut | WriteSettles nat bool | TimerFires nat

record js_page =
  copy_fn :: "string option"
  btn_html :: "nat list"
  btn_color :: string
  cur_event :: bool
  clipboard :: "string option"
  alerts :: "string list"
  pending :: "string list"
  timers :: "nat list list"

definition check_mark :: "nat list" where
  "check_mark = [0x2705]"

definition copy_failed_msg :: string where
  "copy_failed_msg = ''Failed to copy text. Please copy manually.''"

text \<open>The page after loading: the icon and the colour of the button's style attribute.\<close>

definition js_page_init :: "string option \<Rightarrow> string option \<Rightarrow> js_page" where
  "js_page_init f c0 =
     \<lparr>copy_fn = f, btn_html = btn_icon_html, btn_color = ''#666'', cur_event = False,
      clipboard = c0, alerts = [], pending = [], timers = []\<rparr>"

text \<open>
  The function \<^verbatim>\<open>copyToClipboard\<close> that the page defines for a result: when the browser
  runs the script the code writes and the literal of line 193 ends at the code's closing
  backtick, the value of \<^verbatim>\<open>text\<close> is the literal's value; otherwise the model does not
  describe the function (\<open>None\<close>).
\<close>

definition page_copy_fn :: "string \<Rightarrow> string option" where
  "page_copy_fn h =
     (if browser_script h =
           Some (Closed (copy_fn_head @ map of_char (copy_script_line h) @ copy_fn_tail) copy_trailer)
      then (case js_tpl (drop 14 (copy_script_line h)) of
              Some (v, rest) \<Rightarrow> (if rest = '';'' then Some v else None)
            | None \<Rightarrow> None)
      else None)"

text \<open>Dispatching an event: \<^verbatim>\<open>window.event\<close> is the event while its handler runs.\<close>

definition js_dispatch :: "(js_page \<Rightarrow> js_page) \<Rightarrow> js_page \<Rightarrow> js_page" where
  "js_dispatch handler s = (handler (s\<lparr>cur_event := True\<rparr>))\<lparr>cur_event := cur_event s\<rparr>"

text \<open>
  The synchronous part of \<^verbatim>\<open>copyToClipboard()\<close> (lines 192--194): start the clipboard
  write of \<^verbatim>\<open>text\<close>.  Without the function the inline handler throws a
  \<^verbatim>\<open>ReferenceError\<close>, which changes nothing.
\<close>

definition copy_to_clipboard :: "js_page \<Rightarrow> js_page" where
  "copy_to_clipboard s = (case copy_fn s of None \<Rightarrow> s | Some t \<Rightarrow> s\<lparr>pending := pending s @ [t]\<rparr>)"

text \<open>The \<^verbatim>\<open>catch\<close> callback (lines 204--206).\<close>

definition on_copy_failed :: "js_page \<Rightarrow> js_page" where
  "on_copy_failed s = s\<lparr>alerts := alerts s @ [copy_failed_msg]\<rparr>"

text \<open>
  The \<^verbatim>\<open>then\<close> callback (lines 194--203).  \<^verbatim>\<open>event.target\<close> reads the global
  \<^verbatim>\<open>window.event\<close>; when it is undefined the callback throws a \<^verbatim>\<open>TypeError\<close>, the
  promise of \<^verbatim>\<open>then\<close> is rejected and the \<^verbatim>\<open>catch\<close> callback runs.
\<close>

definition on_copied :: "js_page \<Rightarrow> js_page" where
  "on_copied s =
     (if cur_event s
      then s\<lparr>btn_html := check_mark, btn_color := ''#28a745'', timers := timers s @ [btn_html s]\<rparr>
      else on_copy_failed s)"

definition drop_at :: "nat \<Rightarrow> 'a list \<Rightarrow> 'a list" where
  "drop_at i xs = take i xs @ drop (Suc i) xs"

fun js_step :: "js_event \<Rightarrow> js_page \<Rightarrow> js_page" where
  "js_step Click s = js_dispatch copy_to_clipboard s"
| "js_step MouseOver s = js_dispatch (\<lambda>p. p\<lparr>btn_color := ''#333''\<rparr>) s"
| "js_step MouseOut s = js_dispatch (\<lambda>p. p\<lparr>btn_color := ''#666''\<rparr>) s"
| "js_step (WriteSettles i ok) s =
     (if i < length (pending s) then
        (let t = pending s ! i; s1 = s\<lparr>pending := drop_at i (pending s)\<rparr>
         in if ok then on_copied (s1\<lparr>clipboard := Some t\<rparr>) else on_copy_failed s1)
      else s)"
| "js_step (TimerFires i) s =
     (if i < length (timers s)
      then s\<lparr>btn_html := timers s ! i, btn_color := ''#666'', timers := drop_at i (timers s)\<rparr>
      else s)"

definition js_run :: "js_event list \<Rightarrow> js_page \<Rightarrow> js_page" where
  "js_run es s = foldl (\<lambda>p e. js_step e p) s es"

inductive js_reachable :: "string option \<Rightarrow> string option \<Rightarrow> js_page \<Rightarrow> bool" for f c0 where
  init: "js_reachable f c0 (js_page_init f c0)"
| step: "js_reachable f c0 s \<Longrightarrow> js_reachable f c0 (js_step e s)"

subsection \<open>Lemmas\<close>

lemma js_dispatch_fields [simp]:
  "cur_event (js_dispatch h s) = cur_event s"
  by (simp add: js_dispatch_def)

lemma js_dispatch_copy:
  "js_dispatch copy_to_clipboard s =
     (case copy_fn s of None \<Rightarrow> s | Some t \<Rightarrow> s\<lparr>pending := pending s @ [t]\<rparr>)"
  by (simp add: js_dispatch_def copy_to_clipboard_def split: option.split)

lemma js_reachable_fn: "js_reachable f c0 s \<Longrightarrow> copy_fn s = f"
proof (induction rule: js_reachable.induct)
  case init
  then show ?case by (simp add: js_page_init_def)
next
  case (step s e)
  then show ?case
    by (cases e) (simp_all add: copy_to_clipboard_def js_dispatch_def on_copied_def on_copy_failed_def
                     Let_def split: option.split)
qed

lemma js_reachable_no_event: "js_reachable f c0 s \<Longrightarrow> \<not> cur_event s"
proof (induction rule: js_reachable.induct)
  case init
  then show ?case by (simp add: js_page_init_def)
next
  case (step s e)
  then show ?case
    by (cases e) (simp_all add: on_copied_def on_copy_failed_def Let_def)
qed

lemma on_copied_no_event: "\<not> cur_event s \<Longrightarrow> on_copied s = on_copy_failed s"
  by (simp add: on_copied_def)

subsection \<open>Properties of the copy button\<close>

text \<open>
  C25: the success feedback is dead code.  In every page reachable by clicks, hovering,
  settled writes and timers, the button shows its clipboard icon, no timer is pending and
  no event is being dispatched: the \<^verbatim>\<open>then\<close> callback never gets past
  \<^verbatim>\<open>event.target\<close>.
\<close>

theorem copy_feedback_never_shown:
  "js_reachable f c0 s \<Longrightarrow> btn_html s = btn_icon_html \<and> timers s = []"
proof (induction rule: js_reachable.induct)
  case init
  then show ?case by (simp add: js_page_init_def)
next
  case (step s e)
  have ne: "\<not> cur_event s" using step.hyps by (rule js_reachable_no_event)
  show ?case
  proof (cases e)
    case (WriteSettles i ok)
    with step.IH ne show ?thesis
      by (simp add: Let_def on_copied_no_event on_copy_failed_def)
  qed (use step.IH in \<open>simp_all add: copy_to_clipboard_def js_dispatch_def split: option.split\<close>)
qed

theorem copy_feedback_never_shown_witness:
  "js_reachable (Some ''hi'') None (js_run [Click, WriteSettles 0 True] (js_page_init (Some ''hi'') None)) \<and>
   btn_html (js_run [Click, WriteSettles 0 True] (js_page_init (Some ''hi'') None)) = btn_icon_html \<and>
   timers (js_run [Click, WriteSettles 0 True] (js_page_init (Some ''hi'') None)) = []"
proof -
  have r: "js_reachable (Some ''hi'') None (js_run [Click, WriteSettles 0 True] (js_page_init (Some ''hi'') None))"
    by (simp only: js_run_def foldl.simps) (intro js_reachable.step js_reachable.init)
  show ?thesis using r copy_feedback_never_shown [OF r] by blast
qed

text \<open>
  C26: a click whose clipboard write succeeds puts the text on the clipboard and then
  shows the alert "Failed to copy text. Please copy manually.": the \<^verbatim>\<open>TypeError\<close>
  of \<^verbatim>\<open>event.target\<close> sends the success to the \<^verbatim>\<open>catch\<close> callback.
\<close>

theorem copy_success_alerts_failure:
  "js_reachable f c0 s \<Longrightarrow> f = Some t \<Longrightarrow>
   clipboard (js_run [Click, WriteSettles (length (pending s)) True] s) = Some t \<and>
   alerts (js_run [Click, WriteSettles (length (pending s)) True] s) = alerts s @ [copy_failed_msg]"
proof -
  assume r: "js_reachable f c0 s" and f: "f = Some t"
  have fn: "copy_fn s = Some t" using js_reachable_fn [OF r] f by simp
  have ne: "\<not> cur_event s" using r by (rule js_reachable_no_event)
  show ?thesis
    using fn ne by (simp add: js_run_def js_dispatch_copy Let_def drop_at_def on_copied_def
                      on_copy_failed_def nth_append)
qed

theorem copy_success_alerts_failure_witness:
  "js_reachable (Some ''hi'') None (js_page_init (Some ''hi'') None) \<and> Some ''hi'' = Some ''hi'' \<and>
   clipboard (js_run [Click, WriteSettles (length (pending (js_page_init (Some ''hi'') None))) True]
                (js_page_init (Some ''hi'') None)) = Some ''hi'' \<and>
   alerts (js_run [Click, WriteSettles (length (pending (js_page_init (Some ''hi'') None))) True]
                (js_page_init (Some ''hi'') None)) =
     alerts (js_page_init (Some ''hi'') None) @ [copy_failed_msg]"
proof -
  have r: "js_reachable (Some ''hi'') None (js_page_init (Some ''hi'') None)" by (rule js_reachable.init)
  show ?thesis using r copy_success_alerts_failure [OF r refl] by blast
qed

end
