(* ===== verification/Spec2Isabelle.thy ===== *)
theory Spec2Isabelle
  imports App Copy_Script
begin

text \<open>
  \<^bold>\<open>A verification model of the Text Humanizer (\<open>src/app.py\<close>).\<close>

  \<^medskip>\<^bold>\<open>The program.\<close>  One Streamlit page in one Python file.  Streamlit runs
  \<^verbatim>\<open>main\<close> (lines 123--210) from the top on every interaction.  A run reads the
  sidebar (style, temperature, model), builds a fresh \<^verbatim>\<open>TextHumanizerRAG\<close> object
  (lines 17--121) and configures it with the selection.  When the button is pressed and
  the text is not blank, it calls \<^verbatim>\<open>humanize_text\<close> and stores the result in
  \<^verbatim>\<open>st.session_state\<close>; it then shows the stored result with a copy button whose
  script embeds the result in a JavaScript template literal.  \<^verbatim>\<open>humanize_text\<close>
  reconfigures the \<^verbatim>\<open>ChatGroq\<close> client when the temperature differs from the
  recorded one, builds the prompt from a style template
  (\<^verbatim>\<open>create_humanization_prompt\<close>, lines 36--88), sends a system and a human
  message to the remote model, and sanitizes the answer with
  \<^verbatim>\<open>re.sub(r"<think>.*?</think>", "", ..., flags=re.DOTALL).strip()\<close> (line 117).
  Every exception inside it becomes the text \<^verbatim>\<open>"Error: " + str(e)\<close>.

  \<^medskip>\<^bold>\<open>Theories and what they model.\<close>
  \<^item> \<open>Py_Prelude\<close>: the Python builtins the code calls: \<open>py_isspace\<close>
    (\<^verbatim>\<open>str.isspace\<close>), \<open>py_strip\<close>, \<open>py_split\<close>/\<open>py_split_acc\<close> (CPython's
    whitespace split loop), \<open>py_replace\<close>, \<open>dict_get\<close>, \<open>dict_getitem\<close>; the
    exceptions as the datatype \<open>py_exc\<close> with \<open>py_str_exc\<close> for \<^verbatim>\<open>str(e)\<close>; shared
    lemmas on them (collection \<open>py_simps\<close>) and on prefixes of borderless patterns.
  \<^item> \<open>Templates\<close>: the dictionary literal \<open>style_prompts\<close> with its exact strings,
    \<open>create_humanization_prompt\<close> with the eager \<^verbatim>\<open>style_prompts["conversational"]\<close>
    (a possible \<^verbatim>\<open>KeyError\<close>) and \<^verbatim>\<open>dict.get\<close>, \<open>prompt_layout\<close> for the
    f-string, and \<open>resolve_style\<close>, the resolver contract of the specification.
  \<^item> \<open>Sanitizer\<close>: the regex constructs of the pattern (\<open>rx\<close>), a backtracking
    matcher in continuation-passing style (\<open>rmatch\<close>, \<open>lazy_star\<close>), \<^verbatim>\<open>re.sub\<close> as a
    scan (\<open>re_sub\<close>), the compiled pattern \<open>think_pattern\<close>, and \<open>clean_response\<close>,
    the whole of line 117; \<open>strip_think\<close> is a direct scanner proved equal to it.
  \<^item> \<open>Humanizer\<close>: the object as the record \<open>text_humanizer_rag\<close>; the client as
    the \<open>client_config\<close> it is built from; the remote service as the interface
    \<open>groq_backend\<close> (constructor check and call, each of which may fail);
    \<open>TextHumanizerRAG_init\<close>, \<open>update_model_settings\<close>, \<open>humanize_text\<close> as
    state-passing functions with every exception branch; \<open>humanize_spec\<close>, the pipeline
    contract of the specification; \<open>rag_inv\<close>, the invariant that the client is the
    one the recorded model, temperature and key describe; two test doubles.
  \<^item> \<open>Clipboard\<close>: the replace chain \<open>js_escape\<close> of line 193, the statement
    \<open>copy_script_line\<close> that receives the text, a one-pass description
    \<open>js_escape_direct\<close>, and \<open>js_tpl\<close>, a reader of JavaScript template literals
    (the browser's semantics, not code of the repository).
  \<^item> \<open>Html_Tokenizer\<close>: the browser's HTML tokenizer (WHATWG HTML 13.2.3--13.2.5, not
    code of the repository): the input stream preprocessing (\<open>norm_newlines\<close>); the
    data and tag states to tag-name granularity (\<open>ht_char\<close>, \<open>ht_run\<close>), which read
    markup up to the first script start tag; the eighteen script data states
    (\<open>sd_char\<close>, one equation per state), run by a \<open>while_option\<close> loop
    (\<open>script_text\<close>); \<open>page_script\<close>, the text of a document's first script element.
  \<^item> \<open>Copy_Html\<close>: the whole f-string \<^verbatim>\<open>copy_html\<close> of lines 172--209 as a list of
    code points (\<open>copy_html\<close>, split into \<open>copy_markup\<close>, \<open>copy_fn_head\<close>, the
    statement, \<open>copy_fn_tail\<close>, \<open>copy_trailer\<close>); \<open>browser_script\<close>, the text of the
    component's script element for a result, found by tokenizing the whole document.
  \<^item> \<open>Copy_Script\<close>: the copy button at work (lines 174--207): the page state as the
    record \<open>js_page\<close> (button content and colour, \<^verbatim>\<open>window.event\<close>, clipboard,
    alerts, unsettled writes, timers), \<open>page_copy_fn\<close> for the function
    \<^verbatim>\<open>copyToClipboard\<close> the browser defines for a result, the handlers and callbacks
    (\<open>copy_to_clipboard\<close>, \<open>on_copied\<close>, \<open>on_copy_failed\<close>) and \<open>js_step\<close>, one event
    of the event loop run to completion; \<open>js_reachable\<close>, the page states reachable by
    any sequence of events.
  \<^item> \<open>App\<close>: the page configuration (\<open>page_config\<close>, lines 10--15); one run of the
    page, \<open>main_run\<close>, from the inputs (\<open>ui_input\<close>) and the session (\<open>session\<close>)
    to the widgets shown (\<open>widget\<close>, the copy component carrying its HTML document) and
    the new session; \<open>session_reachable\<close>, the sessions reachable by any sequence of
    runs, and \<open>page_trace\<close>, the session after a given sequence of runs, with
    \<open>dispatches\<close>, the condition under which a run reaches \<^verbatim>\<open>humanize_text\<close>.
  \<^item> this theory: the properties that span the page, the humanizer and the copy
    button.

  \<^medskip>\<^bold>\<open>What is proved.\<close>
  \<^item> Humanizer: from a consistent object and an accepting backend, \<^verbatim>\<open>humanize_text\<close>
    refines the specified pipeline for the configuration with the requested temperature
    (any real, no clamping) and leaves the object configured with it; the constructor
    establishes consistency; a constructor failure during reconfiguration leaves a stale
    client that serves the next call at the new temperature with the old one (a
    divergence from the specification); a constructor failure and a failed remote call
    are returned as \<^verbatim>\<open>"Error: "\<close> and the message.
  \<^item> Page: blank text never reaches the remote call and leaves the session unchanged;
    once past the initialisation with the button pressed, the run shows the word count
    first and the warning exactly when that count is zero; in every reachable session a
    stored result is an error text or the sanitized content of a response the backend
    returned; a shown result is never lost by later runs; from every reachable session
    one more run shows a result (if the backend accepts the default client); after any
    trace of runs the page holds the pipeline result, for the selected model and
    temperature, of the last run that dispatched (the stale client cannot arise through
    the page, which rebuilds the object every run); a rejected selection shows only the
    error and hides a stored result.
  \<^item> Sanitizer: the regex model equals the direct scanner; it removes the leftmost span
    up to the first closing tag; the output is a subsequence of the input, trimmed; an
    unclosed tag is kept; a second pass changes the sanitized text exactly when the first
    left a complete span in it, so the sanitizer is not idempotent, contrary to the
    specification.
  \<^item> Templates: the builder never raises and keeps the user's text verbatim; unknown
    styles fall back to the conversational template; the six styles give different
    prompts.
  \<^item> Clipboard: text without backslashes round-trips through the script's literal; for
    every result with a backslash before a backtick (and no backslash earlier) the
    literal ends there and the rest of the result is script source; plain text,
    including \<^verbatim>\<open></script>\<close>, is spliced unchanged; the escaped text is longer than the
    result by exactly one character per backtick, \<^verbatim>\<open>${\<close>, line feed and carriage
    return.
  \<^item> Copy component: the browser tokenizes the markup of the document up to the script
    start tag; for a result without \<^verbatim>\<open><\<close> and NUL the script element holds exactly
    the script the code writes; for every result with \<^verbatim>\<open></script>\<close> after a part
    without \<^verbatim>\<open><\<close> the element ends inside the literal and the rest is parsed as
    markup; for every result with \<^verbatim>\<open><!--<script>\<close> between such parts the element
    stays open to the end of the document, so the copy function is never defined.
  \<^item> Copy button: in every reachable page state the button shows its icon, the check
    mark is never shown; a successful copy is followed by the alert "Failed to copy
    text", since \<^verbatim>\<open>event.target\<close> throws when the write settles; end to end, for a
    result without backslash, \<^verbatim>\<open><\<close> and NUL, a click with a successful write puts
    exactly the result on the clipboard.

  \<^medskip>\<^bold>\<open>Termination, bounds.\<close>  The program has no unbounded loop: the only
  loops are scans over a string.  Every function of the model is total:
  \<open>lazy_star\<close>, \<open>rmatch\<close>, \<open>js_escape_direct\<close>, \<open>norm_newlines\<close>, \<open>sd_run\<close> and
  \<open>ht_run\<close> are structural; \<open>re_sub\<close>, \<open>strip_think\<close>, \<open>py_replace\<close> and
  \<open>js_tpl\<close> terminate by the measure of the remaining text; \<open>sd_char\<close> and
  \<open>ht_char\<close> by a rank on the states that every "reconsume" decreases.  The tokenizer
  loop is a \<open>while_option\<close>; \<open>script_text_run\<close> shows that it computes the
  structural \<open>sd_run\<close>, so it always returns.  The event loop of the copy button has no
  bound: it is a relation on page states, each event run to completion.  No fuel is
  needed.  Python integers do not occur beyond word counts (\<open>nat\<close>); temperatures
  are reals, which the code only compares with \<^verbatim>\<open>!=\<close> and passes on.

  \<^medskip>\<^bold>\<open>Not modelled.\<close>  Streamlit's rendering and layout (headers, columns,
  spinner), the ChatGroq library and the network (an interface, every theorem holds for
  every backend), the tokenizer's character references, comments, doctypes,
  attribute names and values beyond their states, and other raw-text elements (the
  model answers \<open>None\<close> for them; the copy component's markup has none), the tree
  construction beyond the switch to the script data state, the timing of events (only their order is modelled; which write settles and
  whether the browser grants the clipboard are choices of the environment), NaN
  temperatures (for which \<^verbatim>\<open>!=\<close> is always true),
  characters beyond U+00FF (whitespace of \<^verbatim>\<open>str.isspace\<close> is taken below 256), regex
  constructs the pattern does not use, and the numeric escapes and substitutions of
  template literals (the reader answers \<open>None\<close> for them).

  \<^medskip>\<^bold>\<open>Plan for later work.\<close>  (1) A general regex datatype (alternation, classes,
  greedy stars) with a declarative leftmost-first semantics, and \<^verbatim>\<open>re.sub\<close> proved
  against it.  (2) Streamlit's keyed widget state across reruns (the text area
  \<^verbatim>\<open>humanized_output\<close> of line 167).  (3) Character references and comments in the
  tokenizer's data state, for documents whose markup uses them.
\<close>

section \<open>Properties that span components\<close>

text \<open>
  C27: end to end, the copy button copies the result.  For a result without backslash,
  \<^verbatim>\<open><\<close> and NUL, the browser runs the script the code writes, its
  \<^verbatim>\<open>copyToClipboard\<close> holds exactly the result in \<^verbatim>\<open>text\<close>, and a click whose
  clipboard write succeeds puts the result on the clipboard.
\<close>

theorem copy_button_copies_result:
  "bslash \<notin> set h \<Longrightarrow> CHR ''<'' \<notin> set h \<Longrightarrow> CHR 0x00 \<notin> set h \<Longrightarrow>
   page_copy_fn h = Some h \<and>
   clipboard (js_run [Click, WriteSettles 0 True] (js_page_init (page_copy_fn h) c0)) = Some h"
proof -
  assume a: "bslash \<notin> set h" "CHR ''<'' \<notin> set h" "CHR 0x00 \<notin> set h"
  have b: "browser_script h =
             Some (Closed (copy_fn_head @ map of_char (copy_script_line h) @ copy_fn_tail) copy_trailer)"
    by (rule browser_script_intended [OF copy_script_line_plain [OF a(2,3)]])
  have t: "js_tpl (drop 14 (copy_script_line h)) = Some (h, '';'')"
    using js_tpl_js_escape_direct [OF a(1), of "'';''"]
    by (simp add: copy_script_line_body js_escape_direct_eq)
  have f: "page_copy_fn h = Some h" by (simp add: page_copy_fn_def b t)
  then show ?thesis
    by (simp add: js_run_def js_dispatch_copy js_page_init_def Let_def drop_at_def on_copied_def
                  on_copy_failed_def)
qed

theorem copy_button_copies_result_witness:
  "bslash \<notin> set ''a`b'' \<and> CHR ''<'' \<notin> set ''a`b'' \<and> CHR 0x00 \<notin> set ''a`b'' \<and>
   page_copy_fn ''a`b'' = Some ''a`b'' \<and>
   clipboard (js_run [Click, WriteSettles 0 True] (js_page_init (page_copy_fn ''a`b'') None)) = Some ''a`b''"
proof -
  have h: "bslash \<notin> set ''a`b''" "CHR ''<'' \<notin> set ''a`b''" "CHR 0x00 \<notin> set ''a`b''"
    by (simp_all add: bslash_def)
  show ?thesis using h copy_button_copies_result [OF h, of None] by blast
qed

end
